theory Spec2Isabelle
  imports Complex_Main "HOL-Library.Sublist"
begin

section \<open>LuckyTriple backend: the request handlers of server.js\<close>

text \<open>
  The program is one Express application over a MongoDB store (accessed through
  Mongoose). Each handler is modelled as a function from the request and the
  store to the response and the new store.

  \<^item> A JavaScript \<open>Number\<close> is a \<open>real\<close>: rounding and overflow of doubles are
    not modelled. \<open>NaN\<close> is written out where the code can produce it from such
    numbers (\<open>parseFloat\<close> of a text that is no number, arithmetic on
    \<open>undefined\<close>): it is the value \<open>None\<close> of a \<open>real option\<close>.
  \<^item> \<open>undefined\<close> for a field of a request body or of a document is \<open>None\<close>.
  \<^item> A field of a request body has the type the handler computes with: a
    number for a bet or an amount, a text for an email. A guess, the status and
    the amount of a payment callback are values of JavaScript: a number or a
    text, or none.
  \<^item> A text is the list of the bytes of its UTF-8 encoding.
  \<^item> An \<open>ObjectId\<close> is a natural number; \<open>new Date()\<close> is a natural number
    handed to the handler.
  \<^item> \<open>Math.random()\<close> is an argument of the handler.
  \<^item> \<open>payloqaAPI.sendSMS\<close> catches every failure of its own, every call of it
    stands in a \<open>try\<close> block, and it reads and writes no collection: the calls
    are left out.
\<close>

subsection \<open>Values and built-in functions of JavaScript\<close>

text \<open>A value of a request body, as far as the handlers tell values apart:
  \<open>undefined\<close> or \<open>null\<close> (every use below treats the two alike), a number, a
  text.\<close>

datatype jsvalue = JUndefined | JNum real | JStr string

text \<open>The white space that \<open>parseInt\<close>, \<open>parseFloat\<close> and \<open>Number\<close> skip: tab,
  line feed, vertical tab, form feed, carriage return and space; U+00A0;
  U+1680, U+2000 to U+200A, U+2028, U+2029, U+202F, U+205F, U+3000 and
  U+FEFF, in the two or three bytes of their encoding.\<close>

definition white1 :: "char \<Rightarrow> bool" where
  "white1 a = ((of_char a :: nat) \<in> {9, 10, 11, 12, 13, 32})"

definition white2 :: "char \<Rightarrow> char \<Rightarrow> bool" where
  "white2 a b = ((of_char a :: nat) = 194 \<and> (of_char b :: nat) = 160)"

definition white3 :: "char \<Rightarrow> char \<Rightarrow> char \<Rightarrow> bool" where
  "white3 a b c =
     ((of_char a :: nat) = 225 \<and> (of_char b :: nat) = 154 \<and> (of_char c :: nat) = 128 \<or>
      (of_char a :: nat) = 226 \<and> (of_char b :: nat) = 128 \<and>
        (128 \<le> (of_char c :: nat) \<and> (of_char c :: nat) \<le> 138 \<or>
         (of_char c :: nat) \<in> {168, 169, 175}) \<or>
      (of_char a :: nat) = 226 \<and> (of_char b :: nat) = 129 \<and> (of_char c :: nat) = 159 \<or>
      (of_char a :: nat) = 227 \<and> (of_char b :: nat) = 128 \<and> (of_char c :: nat) = 128 \<or>
      (of_char a :: nat) = 239 \<and> (of_char b :: nat) = 187 \<and> (of_char c :: nat) = 191)"

fun trimStart :: "string \<Rightarrow> string" where
  "trimStart (a # b # c # s) =
     (if white1 a then trimStart (b # c # s)
      else if white2 a b then trimStart (c # s)
      else if white3 a b c then trimStart s
      else a # b # c # s)"
| "trimStart [a, b] =
     (if white1 a then trimStart [b] else if white2 a b then [] else [a, b])"
| "trimStart [a] = (if white1 a then [] else [a])"
| "trimStart [] = []"

definition is_digit :: "char \<Rightarrow> bool" where
  "is_digit c = (48 \<le> (of_char c :: nat) \<and> (of_char c :: nat) \<le> 57)"

definition decimal :: "string \<Rightarrow> nat" where
  "decimal ds = foldl (\<lambda>n c. 10 * n + ((of_char c :: nat) - 48)) 0 ds"

text \<open>The digits of radix 16, 8 and 2.\<close>

definition is_hex :: "char \<Rightarrow> bool" where
  "is_hex c =
     (is_digit c \<or> 97 \<le> (of_char c :: nat) \<and> (of_char c :: nat) \<le> 102 \<or>
      65 \<le> (of_char c :: nat) \<and> (of_char c :: nat) \<le> 70)"

definition is_octal :: "char \<Rightarrow> bool" where
  "is_octal c = (48 \<le> (of_char c :: nat) \<and> (of_char c :: nat) \<le> 55)"

definition is_binary :: "char \<Rightarrow> bool" where
  "is_binary c = (c = CHR ''0'' \<or> c = CHR ''1'')"

definition hex_value :: "char \<Rightarrow> nat" where
  "hex_value c =
     (if is_digit c then (of_char c :: nat) - 48
      else if 97 \<le> (of_char c :: nat) then (of_char c :: nat) - 87
      else (of_char c :: nat) - 55)"

definition hexadecimal :: "string \<Rightarrow> nat" where
  "hexadecimal ds = foldl (\<lambda>n c. 16 * n + hex_value c) 0 ds"

text \<open>The text starts with \<open>0\<close> and one of the two letters.\<close>

definition radix_prefix :: "char \<Rightarrow> char \<Rightarrow> string \<Rightarrow> bool" where
  "radix_prefix l u t =
     (case t of a # b # r \<Rightarrow> a = CHR ''0'' \<and> (b = l \<or> b = u) | _ \<Rightarrow> False)"

definition signed :: "string \<Rightarrow> bool" where
  "signed t = (t \<noteq> [] \<and> (hd t = CHR ''-'' \<or> hd t = CHR ''+''))"

text \<open>\<open>parseInt\<close> of a text, with no radix given: white space is skipped, then
  a sign, then \<open>0x\<close> or \<open>0X\<close>, which makes the radix 16; the digits that follow
  are read as far as they go, and with no digit the result is \<open>NaN\<close>
  (\<open>None\<close>).\<close>

definition parseInt_text :: "string \<Rightarrow> int option" where
  "parseInt_text s =
     (let t = trimStart s;
          neg = (t \<noteq> [] \<and> hd t = CHR ''-'');
          t1 = (if signed t then tl t else t);
          hex = radix_prefix CHR ''x'' CHR ''X'' t1;
          ds = (if hex then takeWhile is_hex (drop 2 t1) else takeWhile is_digit t1);
          v = (if hex then hexadecimal ds else decimal ds)
      in if ds = [] then None else Some (if neg then - int v else int v))"

text \<open>\<open>parseInt\<close> of a value: the value is made a text first. The text of
  \<open>undefined\<close> has no digit. The text of a number from \<open>10^-6\<close> up to \<open>10^21\<close>
  in magnitude is in decimal notation, and \<open>parseInt\<close> reads the digits before
  the point: the number is cut off towards zero. Outside that range the text
  is in exponent notation (\<open>1e+21\<close>, \<open>5e-7\<close>), of which \<open>parseInt\<close> reads the
  first digit. That digit is the first of the shortest decimal that reads back
  as the same double, which the reals do not determine: it is the argument
  \<open>exp_digit\<close>, applied to the magnitude.\<close>

fun parseInt :: "(real \<Rightarrow> nat) \<Rightarrow> jsvalue \<Rightarrow> int option" where
  "parseInt exp_digit JUndefined = None"
| "parseInt exp_digit (JNum r) =
     Some (if r = 0 then 0
           else if \<bar>r\<bar> < 1 / 10 ^ 6 \<or> 10 ^ 21 \<le> \<bar>r\<bar>
           then (if r < 0 then - int (exp_digit \<bar>r\<bar>) else int (exp_digit \<bar>r\<bar>))
           else if 0 \<le> r then \<lfloor>r\<rfloor> else \<lceil>r\<rceil>)"
| "parseInt exp_digit (JStr s) = parseInt_text s"

text \<open>\<open>parseFloat\<close> of a text: white space is skipped, then the longest
  prefix that is a decimal literal is read (sign, digits, fraction, exponent);
  with no such prefix the result is \<open>NaN\<close>. The literal \<open>Infinity\<close>, which has
  no value among the reals, is read as \<open>NaN\<close>.\<close>

definition exponent_of :: "string \<Rightarrow> int" where
  "exponent_of r =
     (if r \<noteq> [] \<and> (hd r = CHR ''e'' \<or> hd r = CHR ''E'')
      then
        let r1 = tl r;
            neg = (r1 \<noteq> [] \<and> hd r1 = CHR ''-'');
            r2 = (if r1 \<noteq> [] \<and> (hd r1 = CHR ''-'' \<or> hd r1 = CHR ''+'') then tl r1 else r1);
            ds = takeWhile is_digit r2
        in if ds = [] then 0 else if neg then - int (decimal ds) else int (decimal ds)
      else 0)"

definition parseFloat_text :: "string \<Rightarrow> real option" where
  "parseFloat_text s =
     (let t = trimStart s;
          neg = (t \<noteq> [] \<and> hd t = CHR ''-'');
          t1 = (if t \<noteq> [] \<and> (hd t = CHR ''-'' \<or> hd t = CHR ''+'') then tl t else t);
          ip = takeWhile is_digit t1;
          r1 = dropWhile is_digit t1;
          dot = (r1 \<noteq> [] \<and> hd r1 = CHR ''.'');
          fp = (if dot then takeWhile is_digit (tl r1) else []);
          r2 = (if dot then dropWhile is_digit (tl r1) else r1);
          mant = real (decimal ip) + real (decimal fp) / 10 ^ length fp;
          e = exponent_of r2;
          v = (if 0 \<le> e then mant * 10 ^ nat e else mant / 10 ^ nat (- e))
      in if ip = [] \<and> fp = [] then None else Some (if neg then - v else v))"

text \<open>\<open>parseFloat\<close> of a value: the argument is made a text first. The text of
  a number reads back as that number; the text of \<open>undefined\<close> is no number.\<close>

fun parseFloat :: "jsvalue \<Rightarrow> real option" where
  "parseFloat JUndefined = None"
| "parseFloat (JNum r) = Some r"
| "parseFloat (JStr s) = parseFloat_text s"

text \<open>\<open>Number(s)\<close> of a text \<open>s\<close> is a number, not \<open>NaN\<close>: between white space
  the whole text is a literal of radix 16, 8 or 2, or a signed decimal literal
  or \<open>Infinity\<close>, or nothing at all.\<close>

definition digits_to_end :: "(char \<Rightarrow> bool) \<Rightarrow> string \<Rightarrow> bool" where
  "digits_to_end p t = (takeWhile p t \<noteq> [] \<and> trimStart (dropWhile p t) = [])"

definition after_exponent :: "string \<Rightarrow> string" where
  "after_exponent r =
     (if r \<noteq> [] \<and> (hd r = CHR ''e'' \<or> hd r = CHR ''E'')
      then
        let r1 = tl r;
            r2 = (if signed r1 then tl r1 else r1)
        in if takeWhile is_digit r2 = [] then r else dropWhile is_digit r2
      else r)"

definition is_number_text :: "string \<Rightarrow> bool" where
  "is_number_text s =
     (let t = trimStart s
      in if t = [] then True
         else if radix_prefix CHR ''x'' CHR ''X'' t then digits_to_end is_hex (drop 2 t)
         else if radix_prefix CHR ''o'' CHR ''O'' t then digits_to_end is_octal (drop 2 t)
         else if radix_prefix CHR ''b'' CHR ''B'' t then digits_to_end is_binary (drop 2 t)
         else
           let t1 = (if signed t then tl t else t);
               ip = takeWhile is_digit t1;
               r1 = dropWhile is_digit t1;
               dot = (r1 \<noteq> [] \<and> hd r1 = CHR ''.'');
               fp = (if dot then takeWhile is_digit (tl r1) else []);
               r2 = (if dot then dropWhile is_digit (tl r1) else r1)
           in if prefix ''Infinity'' t1 then trimStart (drop 8 t1) = []
              else (ip \<noteq> [] \<or> fp \<noteq> []) \<and> trimStart (after_exponent r2) = [])"

text \<open>Mongoose casts a value to the schema type \<open>Number\<close>: \<open>null\<close> and numbers
  stay, a text goes through \<open>Number\<close>, and \<open>NaN\<close> is refused with a
  \<open>CastError\<close>.\<close>

fun castNumber_ok :: "jsvalue \<Rightarrow> bool" where
  "castNumber_ok JUndefined = True"
| "castNumber_ok (JNum r) = True"
| "castNumber_ok (JStr s) = is_number_text s"

subsection \<open>Database models\<close>

type_synonym objectId = nat

text \<open>\<open>userSchema\<close>. The password is \<open>None\<close> in a document read with
  \<open>select('-password')\<close>.\<close>

record user =
  uid :: objectId
  email :: string
  password :: "string option"
  phone :: string
  balance :: real
  isAdmin :: bool
  createdAt :: nat

datatype txType = Deposit | Withdrawal | Bet | Win | Credit

datatype txStatus = Pending | Completed | Approved | Rejected

text \<open>The \<open>reference\<close> of a transaction: the generated
  \<open>WTH_${Date.now()}_${user._id}\<close> of a withdrawal request, or a text.\<close>

datatype reference_text = WTH nat objectId | Text string

text \<open>\<open>transactionSchema\<close>.\<close>

record transaction =
  tid :: objectId
  userId :: objectId
  ttype :: txType
  amount :: real
  status :: txStatus
  reference :: "reference_text option"
  processedAt :: "nat option"
  processedBy :: "objectId option"

text \<open>\<open>gameHistorySchema\<close>. The guesses are kept as the request has them;
  the collection has the numbers that Mongoose casts them to.\<close>

record gameHistory =
  playerId :: objectId
  betAmount :: real
  guesses :: "jsvalue list"
  winningNumbers :: "int list"
  matches :: nat
  profit :: real
  balanceBefore :: real
  balanceAfter :: real

text \<open>\<open>gameSettingsSchema\<close>. \<open>payoutMultipliers\<close> is a nested path: a key of
  it that the stored document does not have is \<open>None\<close>.\<close>

record multipliers =
  threeMatches :: "real option"
  twoMatches :: "real option"
  oneMatch :: "real option"

record gameSettings =
  houseFee :: real
  maxBet :: real
  minBet :: real
  payoutMultipliers :: multipliers
  updatedAt :: nat
  updatedBy :: "objectId option"

record db =
  users :: "user list"
  transactions :: "transaction list"
  gameHistories :: "gameHistory list"
  settings :: "gameSettings option"

subsection \<open>Responses\<close>

text \<open>\<open>res.status(c).json({ success: false, error: e })\<close> is \<open>Error c e\<close>;
  \<open>res.json({ success: true, ... })\<close> is \<open>Success\<close> of the payload.\<close>

datatype 'a response = Error nat string | Success 'a

fun is_error :: "'a response \<Rightarrow> bool" where
  "is_error (Error c e) = True"
| "is_error (Success p) = False"

subsection \<open>Collections\<close>

definition findById :: "objectId \<Rightarrow> user list \<Rightarrow> user option" where
  "findById i us = find (\<lambda>u. uid u = i) us"

definition findOne_email :: "string \<Rightarrow> user list \<Rightarrow> user option" where
  "findOne_email e us = find (\<lambda>u. email u = e) us"

text \<open>\<open>user.save()\<close> of a document that was read from the collection.\<close>

definition save_user :: "user \<Rightarrow> user list \<Rightarrow> user list" where
  "save_user u us = map (\<lambda>v. if uid v = uid u then u else v) us"

definition findTx :: "objectId \<Rightarrow> transaction list \<Rightarrow> transaction option" where
  "findTx i ts = find (\<lambda>t. tid t = i) ts"

definition save_tx :: "transaction \<Rightarrow> transaction list \<Rightarrow> transaction list" where
  "save_tx t ts = map (\<lambda>v. if tid v = tid t then t else v) ts"

text \<open>The \<open>_id\<close> of a new document: one that no document of the collection has.\<close>

definition fresh :: "objectId list \<Rightarrow> objectId" where
  "fresh ids = Suc (fold max ids 0)"

text \<open>\<open>Transaction.create\<close>.\<close>

definition Transaction_create ::
  "objectId \<Rightarrow> txType \<Rightarrow> real \<Rightarrow> txStatus \<Rightarrow> reference_text option \<Rightarrow> nat option \<Rightarrow>
   objectId option \<Rightarrow> transaction list \<Rightarrow> transaction list" where
  "Transaction_create u ty a st r pa pb ts =
     ts @ [\<lparr>tid = fresh (map tid ts), userId = u, ttype = ty, amount = a, status = st,
            reference = r, processedAt = pa, processedBy = pb\<rparr>]"

text \<open>The defaults of \<open>gameSettingsSchema\<close>. Mongoose fills them in when a
  document is made, and for every path a stored document does not have when it
  is read.\<close>

definition default_multipliers :: multipliers where
  "default_multipliers = \<lparr>threeMatches = Some 100, twoMatches = Some 10, oneMatch = Some 2\<rparr>"

definition new_GameSettings :: "nat \<Rightarrow> gameSettings" where
  "new_GameSettings now =
     \<lparr>houseFee = 10, maxBet = 1000, minBet = 1, payoutMultipliers = default_multipliers,
      updatedAt = now, updatedBy = None\<rparr>"

definition or_default :: "real option \<Rightarrow> real \<Rightarrow> real option" where
  "or_default v d = (case v of None \<Rightarrow> Some d | Some x \<Rightarrow> Some x)"

definition apply_defaults :: "gameSettings \<Rightarrow> gameSettings" where
  "apply_defaults s =
     s\<lparr>payoutMultipliers :=
         \<lparr>threeMatches = or_default (threeMatches (payoutMultipliers s)) 100,
          twoMatches = or_default (twoMatches (payoutMultipliers s)) 10,
          oneMatch = or_default (oneMatch (payoutMultipliers s)) 2\<rparr>\<rparr>"

definition GameSettings_findOne :: "db \<Rightarrow> gameSettings option" where
  "GameSettings_findOne d = map_option apply_defaults (settings d)"

text \<open>\<open>let settings = await GameSettings.findOne(); if (!settings) settings =
  await GameSettings.create({})\<close>: the document the handler goes on with, and
  the document the collection holds afterwards.\<close>

definition current_settings :: "nat \<Rightarrow> db \<Rightarrow> gameSettings" where
  "current_settings now d =
     (case GameSettings_findOne d of None \<Rightarrow> new_GameSettings now | Some s \<Rightarrow> s)"

definition stored_settings :: "nat \<Rightarrow> db \<Rightarrow> gameSettings" where
  "stored_settings now d =
     (case settings d of None \<Rightarrow> new_GameSettings now | Some s \<Rightarrow> s)"

subsection \<open>Middleware\<close>

text \<open>What \<open>jwt.verify\<close> makes of the Authorization header: no token, a token
  it refuses, or the claims \<open>{ id, email, isAdmin }\<close> that were signed.\<close>

record jwt =
  jwt_id :: objectId
  jwt_email :: string
  jwt_isAdmin :: bool

datatype auth = NoToken | InvalidToken | Token jwt

definition authenticateToken ::
  "auth \<Rightarrow> (jwt \<Rightarrow> db \<Rightarrow> 'a response \<times> db) \<Rightarrow> db \<Rightarrow> 'a response \<times> db" where
  "authenticateToken a handler d =
     (case a of
        NoToken \<Rightarrow> (Error 401 ''Access token required'', d)
      | InvalidToken \<Rightarrow> (Error 403 ''Invalid or expired token'', d)
      | Token u \<Rightarrow> handler u d)"

definition requireAdmin ::
  "(jwt \<Rightarrow> db \<Rightarrow> 'a response \<times> db) \<Rightarrow> jwt \<Rightarrow> db \<Rightarrow> 'a response \<times> db" where
  "requireAdmin handler u d =
     (if \<not> jwt_isAdmin u then (Error 403 ''Admin access required'', d) else handler u d)"

subsection \<open>Play Game: \<open>POST /api/game/play\<close>\<close>

text \<open>\<open>Math.floor(Math.random() * 10)\<close>.\<close>

definition draw :: "real \<Rightarrow> int" where
  "draw r = \<lfloor>r * 10\<rfloor>"

text \<open>\<open>guesses.forEach((guess, i) => { if (parseInt(guess) === winningNumbers[i])
  matches++; })\<close>: the index \<open>i\<close> and the counter are carried along; an index
  past the end of \<open>winningNumbers\<close> reads \<open>undefined\<close>, which equals no number,
  and \<open>NaN\<close> equals no number either.\<close>

fun forEach_matches ::
  "(real \<Rightarrow> nat) \<Rightarrow> jsvalue list \<Rightarrow> int list \<Rightarrow> nat \<Rightarrow> nat \<Rightarrow> nat" where
  "forEach_matches exp_digit [] w i m = m"
| "forEach_matches exp_digit (guess # gs) w i m =
     forEach_matches exp_digit gs w (Suc i)
       (if i < length w \<and> parseInt exp_digit guess = Some (w ! i) then Suc m else m)"

text \<open>\<open>winAmount\<close>; \<open>None\<close> is \<open>NaN\<close>, the product of the bet and a multiplier
  that is \<open>undefined\<close>.\<close>

definition winAmount_of :: "nat \<Rightarrow> real \<Rightarrow> multipliers \<Rightarrow> real option" where
  "winAmount_of m bet pm =
     (if m = 3 then map_option (\<lambda>k. bet * k) (threeMatches pm)
      else if m = 2 then map_option (\<lambda>k. bet * k) (twoMatches pm)
      else if m = 1 then map_option (\<lambda>k. bet * k) (oneMatch pm)
      else Some 0)"

text \<open>The payload of the answer: \<open>winningNumbers\<close>, \<open>matches\<close>, \<open>profit\<close>,
  \<open>newBalance\<close>, \<open>message\<close>.\<close>

datatype play_result = PlayResult "int list" nat real real string

text \<open>Lines 521 to 576: the wager is settled. The profit goes to the balance
  and the user is saved. Then the game is recorded: when a guess does not cast
  to a \<open>Number\<close>, \<open>gameHistory.save()\<close> throws and the \<open>catch\<close> block answers
  500, with the balance already written. Otherwise the ledger gets its \<open>bet\<close>
  entry and, for a positive \<open>winAmount\<close>, its \<open>win\<close> entry.\<close>

definition settle ::
  "real \<Rightarrow> jsvalue list \<Rightarrow> int list \<Rightarrow> nat \<Rightarrow> real \<Rightarrow> nat \<Rightarrow> user \<Rightarrow> db \<Rightarrow>
   play_result response \<times> db" where
  "settle bet gs w m winAmount now u d1 =
     (let pr = winAmount - bet;
          before = balance u;
          u' = u\<lparr>balance := balance u + pr\<rparr>;
          d2 = d1\<lparr>users := save_user u' (users d1)\<rparr>
      in if \<not> list_all castNumber_ok gs then (Error 500 ''Game error occurred'', d2)
         else
           let d3 = d2\<lparr>gameHistories := gameHistories d2 @
                      [\<lparr>playerId = uid u', betAmount = bet, guesses = gs,
                        winningNumbers = w, matches = m, profit = pr,
                        balanceBefore = before, balanceAfter = balance u'\<rparr>]\<rparr>;
               d4 = d3\<lparr>transactions :=
                      Transaction_create (uid u') Bet bet Completed None (Some now) None
                        (transactions d3)\<rparr>;
               d5 = (if winAmount > 0
                     then d4\<lparr>transactions :=
                            Transaction_create (uid u') Win winAmount Completed None
                              (Some now) None (transactions d4)\<rparr>
                     else d4)
           in (Success (PlayResult w m pr (balance u')
                 (if m > 0 then ''You won!'' else ''Better luck next time!'')), d5))"

text \<open>The handler. The text of the second error carries the two bounds, which
  are not rendered here. A user that \<open>findById\<close> does not find is \<open>null\<close>:
  reading its balance throws, and the \<open>catch\<close> block answers 500. So does
  \<open>user.save()\<close> for a balance that is \<open>NaN\<close>, which Mongoose refuses to cast.\<close>

definition play_handler ::
  "(real \<Rightarrow> nat) \<Rightarrow> real option \<Rightarrow> jsvalue list option \<Rightarrow> real \<times> real \<times> real \<Rightarrow> nat \<Rightarrow>
   jwt \<Rightarrow> db \<Rightarrow> play_result response \<times> db" where
  "play_handler exp_digit req_bet req_guesses rnd now req_user d =
     (case (req_bet, req_guesses) of
        (Some bet, Some gs) \<Rightarrow>
          if bet = 0 \<or> bet \<le> 0 \<or> length gs \<noteq> 3
          then (Error 400 ''Invalid game parameters'', d)
          else
            let s = current_settings now d;
                d1 = d\<lparr>settings := Some (stored_settings now d)\<rparr>
            in if bet < minBet s \<or> bet > maxBet s
               then (Error 400 ''Bet must be between GHS minBet and GHS maxBet'', d1)
               else
                 (case findById (jwt_id req_user) (users d) of
                    None \<Rightarrow> (Error 500 ''Game error occurred'', d1)
                  | Some u \<Rightarrow>
                      if balance u < bet
                      then (Error 400 ''Insufficient balance'', d1)
                      else
                        let w = [draw (fst rnd), draw (fst (snd rnd)), draw (snd (snd rnd))];
                            m = forEach_matches exp_digit gs w 0 0
                        in (case winAmount_of m bet (payoutMultipliers s) of
                              None \<Rightarrow> (Error 500 ''Game error occurred'', d1)
                            | Some winAmount \<Rightarrow> settle bet gs w m winAmount now u d1))
      | _ \<Rightarrow> (Error 400 ''Invalid game parameters'', d))"

definition play ::
  "(real \<Rightarrow> nat) \<Rightarrow> auth \<Rightarrow> real option \<Rightarrow> jsvalue list option \<Rightarrow> real \<times> real \<times> real \<Rightarrow>
   nat \<Rightarrow> db \<Rightarrow> play_result response \<times> db" where
  "play exp_digit a req_bet req_guesses rnd now d =
     authenticateToken a (play_handler exp_digit req_bet req_guesses rnd now) d"

subsection \<open>Sign Up: \<open>POST /api/auth/signup\<close>\<close>

text \<open>\<open>String.prototype.toLowerCase\<close> on the letters A to Z; a \<open>string\<close> is
  a list of bytes, and the bytes of other characters stay.\<close>

definition lower_char :: "char \<Rightarrow> char" where
  "lower_char c =
     (if 65 \<le> (of_char c :: nat) \<and> (of_char c :: nat) \<le> 90
      then char_of ((of_char c :: nat) + 32) else c)"

definition toLowerCase :: "string \<Rightarrow> string" where
  "toLowerCase s = map lower_char s"

text \<open>\<open>s.includes(t)\<close>: \<open>t\<close> starts at some position of \<open>s\<close>.\<close>

fun includes_str :: "string \<Rightarrow> string \<Rightarrow> bool" where
  "includes_str [] t = (t = [])"
| "includes_str (c # cs) t = (prefix t (c # cs) \<or> includes_str cs t)"

text \<open>The payload: \<open>user: { _id, email, phone, balance, isAdmin }\<close> and the
  token, which is the signed claims.\<close>

datatype signup_result = SignedUp objectId string string real bool jwt

text \<open>\<open>bcrypt.hash(password, 10)\<close> is the argument \<open>bcrypt_hash\<close>. An empty
  text is falsy, as \<open>undefined\<close> is.\<close>

definition signup ::
  "(string \<Rightarrow> string) \<Rightarrow> string option \<Rightarrow> string option \<Rightarrow> string option \<Rightarrow> nat \<Rightarrow> db \<Rightarrow>
   signup_result response \<times> db" where
  "signup bcrypt_hash req_email req_password req_phone now d =
     (case (req_email, req_password, req_phone) of
        (Some e, Some p, Some ph) \<Rightarrow>
          if e = [] \<or> p = [] \<or> ph = []
          then (Error 400 ''All fields are required'', d)
          else
            (case findOne_email e (users d) of
               Some existingUser \<Rightarrow> (Error 400 ''Email already exists'', d)
             | None \<Rightarrow>
                 let hashedPassword = bcrypt_hash p;
                     u = \<lparr>uid = fresh (map uid (users d)), email = e,
                          password = Some hashedPassword, phone = ph, balance = 0,
                          isAdmin = includes_str (toLowerCase e) ''admin'', createdAt = now\<rparr>
                 in (Success (SignedUp (uid u) (email u) (phone u) (balance u) (isAdmin u)
                        \<lparr>jwt_id = uid u, jwt_email = email u, jwt_isAdmin = isAdmin u\<rparr>),
                     d\<lparr>users := users d @ [u]\<rparr>))
      | _ \<Rightarrow> (Error 400 ''All fields are required'', d))"

subsection \<open>Payment Callback: \<open>POST /api/payments/webhook\<close>\<close>

record metadata =
  user_id :: "objectId option"

text \<open>The handler. Without \<open>metadata\<close>, reading \<open>metadata.user_id\<close> throws;
  \<open>findById(undefined)\<close> finds nothing. A balance that became \<open>NaN\<close> is
  refused by \<open>user.save()\<close>, which throws: both end in the \<open>catch\<close> block.\<close>

definition webhook ::
  "jsvalue \<Rightarrow> jsvalue \<Rightarrow> metadata option \<Rightarrow> db \<Rightarrow> string response \<times> db" where
  "webhook req_status req_amount req_metadata d =
     (if req_status = JStr ''completed''
      then
        (case req_metadata of
           None \<Rightarrow> (Error 500 ''Callback processing failed'', d)
         | Some md \<Rightarrow>
             (case (case user_id md of None \<Rightarrow> None | Some i \<Rightarrow> findById i (users d)) of
                None \<Rightarrow> (Error 404 ''User not found'', d)
              | Some u \<Rightarrow>
                  (case parseFloat req_amount of
                     None \<Rightarrow> (Error 500 ''Callback processing failed'', d)
                   | Some numAmount \<Rightarrow>
                       (Success ''Payment processed'',
                        d\<lparr>users := save_user (u\<lparr>balance := balance u + numAmount\<rparr>)
                                      (users d)\<rparr>))))
      else if req_status = JStr ''failed''
      then (Success ''Payment failed'', d)
      else (Success ''Payment processing'', d))"

subsection \<open>Request Withdrawal: \<open>POST /api/withdrawals/request\<close>\<close>

definition request_withdrawal_handler ::
  "real option \<Rightarrow> nat \<Rightarrow> jwt \<Rightarrow> db \<Rightarrow> transaction response \<times> db" where
  "request_withdrawal_handler req_amount now req_user d =
     (case req_amount of
        None \<Rightarrow> (Error 400 ''Invalid amount'', d)
      | Some a \<Rightarrow>
          if a = 0 \<or> a \<le> 0 then (Error 400 ''Invalid amount'', d)
          else
            (case findById (jwt_id req_user) (users d) of
               None \<Rightarrow> (Error 500 ''Failed to submit withdrawal request'', d)
             | Some u \<Rightarrow>
                 if balance u < a then (Error 400 ''Insufficient balance'', d)
                 else
                   let ts = Transaction_create (uid u) Withdrawal a Pending
                              (Some (WTH now (uid u))) None None (transactions d)
                   in (Success (last ts), d\<lparr>transactions := ts\<rparr>)))"

definition request_withdrawal ::
  "auth \<Rightarrow> real option \<Rightarrow> nat \<Rightarrow> db \<Rightarrow> transaction response \<times> db" where
  "request_withdrawal a req_amount now d =
     authenticateToken a (request_withdrawal_handler req_amount now) d"

subsection \<open>Get All Users: \<open>GET /api/admin/users\<close>\<close>

text \<open>\<open>User.find({ isAdmin: false }).select('-password').sort({ createdAt: -1 })\<close>:
  the newest account first.\<close>

definition select_no_password :: "user \<Rightarrow> user" where
  "select_no_password u = u\<lparr>password := None\<rparr>"

definition list_users_handler :: "jwt \<Rightarrow> db \<Rightarrow> user list response \<times> db" where
  "list_users_handler req_user d =
     (Success (sort_key (\<lambda>u. - int (createdAt u))
                 (map select_no_password (filter (\<lambda>u. isAdmin u = False) (users d)))), d)"

definition list_users :: "auth \<Rightarrow> db \<Rightarrow> user list response \<times> db" where
  "list_users a d = authenticateToken a (requireAdmin list_users_handler) d"

subsection \<open>Credit User: \<open>POST /api/admin/credit-user\<close>\<close>

text \<open>The payload is \<open>newBalance\<close>. \<open>reason || 'Admin credit'\<close>: a reason that
  is absent or empty gives the fixed text.\<close>

definition reason_or :: "string option \<Rightarrow> string \<Rightarrow> string" where
  "reason_or reason t = (case reason of None \<Rightarrow> t | Some r \<Rightarrow> if r = [] then t else r)"

definition credit_user_handler ::
  "objectId option \<Rightarrow> real option \<Rightarrow> string option \<Rightarrow> nat \<Rightarrow> jwt \<Rightarrow> db \<Rightarrow>
   real response \<times> db" where
  "credit_user_handler req_userId req_amount req_reason now req_user d =
     (case (req_userId, req_amount) of
        (Some i, Some a) \<Rightarrow>
          if a = 0 \<or> a \<le> 0 then (Error 400 ''Invalid parameters'', d)
          else
            (case findById i (users d) of
               None \<Rightarrow> (Error 404 ''User not found'', d)
             | Some u \<Rightarrow>
                 let u' = u\<lparr>balance := balance u + a\<rparr>;
                     d1 = d\<lparr>users := save_user u' (users d)\<rparr>;
                     d2 = d1\<lparr>transactions :=
                            Transaction_create (uid u') Credit a Completed
                              (Some (Text (reason_or req_reason ''Admin credit''))) (Some now)
                              (Some (jwt_id req_user)) (transactions d1)\<rparr>
                 in (Success (balance u'), d2))
      | _ \<Rightarrow> (Error 400 ''Invalid parameters'', d))"

definition credit_user ::
  "auth \<Rightarrow> objectId option \<Rightarrow> real option \<Rightarrow> string option \<Rightarrow> nat \<Rightarrow> db \<Rightarrow>
   real response \<times> db" where
  "credit_user a req_userId req_amount req_reason now d =
     authenticateToken a
       (requireAdmin (credit_user_handler req_userId req_amount req_reason now)) d"

subsection \<open>Approve Withdrawal: \<open>POST /api/admin/approve-withdrawal\<close>\<close>

text \<open>\<open>Transaction.findById(transactionId).populate('userId')\<close>: the transaction,
  and in \<open>transaction.userId\<close> the user it names, or \<open>null\<close> when there is
  none; reading the balance of \<open>null\<close> throws.\<close>

definition Transaction_findById :: "objectId option \<Rightarrow> db \<Rightarrow> transaction option" where
  "Transaction_findById req_transactionId d =
     (case req_transactionId of None \<Rightarrow> None | Some i \<Rightarrow> findTx i (transactions d))"

definition approve_withdrawal_handler ::
  "objectId option \<Rightarrow> nat \<Rightarrow> jwt \<Rightarrow> db \<Rightarrow> string response \<times> db" where
  "approve_withdrawal_handler req_transactionId now req_user d =
     (case Transaction_findById req_transactionId d of
        None \<Rightarrow> (Error 404 ''Transaction not found'', d)
      | Some t \<Rightarrow>
          if status t \<noteq> Pending then (Error 400 ''Transaction already processed'', d)
          else
            (case findById (userId t) (users d) of
               None \<Rightarrow> (Error 500 ''Failed to approve withdrawal'', d)
             | Some u \<Rightarrow>
                 if balance u < amount t
                 then (Error 400 ''User has insufficient balance'', d)
                 else
                   let d1 = d\<lparr>users := save_user (u\<lparr>balance := balance u - amount t\<rparr>)
                                         (users d)\<rparr>;
                       t' = t\<lparr>status := Approved, processedAt := Some now,
                              processedBy := Some (jwt_id req_user)\<rparr>
                   in (Success ''Withdrawal approved successfully'',
                       d1\<lparr>transactions := save_tx t' (transactions d1)\<rparr>)))"

definition approve_withdrawal ::
  "auth \<Rightarrow> objectId option \<Rightarrow> nat \<Rightarrow> db \<Rightarrow> string response \<times> db" where
  "approve_withdrawal a req_transactionId now d =
     authenticateToken a (requireAdmin (approve_withdrawal_handler req_transactionId now)) d"

subsection \<open>Reject Withdrawal: \<open>POST /api/admin/reject-withdrawal\<close>\<close>

definition reject_withdrawal_handler ::
  "objectId option \<Rightarrow> string option \<Rightarrow> nat \<Rightarrow> jwt \<Rightarrow> db \<Rightarrow> string response \<times> db" where
  "reject_withdrawal_handler req_transactionId req_reason now req_user d =
     (case Transaction_findById req_transactionId d of
        None \<Rightarrow> (Error 404 ''Transaction not found'', d)
      | Some t \<Rightarrow>
          if status t \<noteq> Pending then (Error 400 ''Transaction already processed'', d)
          else
            let t' = t\<lparr>status := Rejected, processedAt := Some now,
                       processedBy := Some (jwt_id req_user),
                       reference := Some (Text (reason_or req_reason ''Rejected by admin''))\<rparr>
            in (Success ''Withdrawal rejected'',
                d\<lparr>transactions := save_tx t' (transactions d)\<rparr>))"

definition reject_withdrawal ::
  "auth \<Rightarrow> objectId option \<Rightarrow> string option \<Rightarrow> nat \<Rightarrow> db \<Rightarrow> string response \<times> db" where
  "reject_withdrawal a req_transactionId req_reason now d =
     authenticateToken a
       (requireAdmin (reject_withdrawal_handler req_transactionId req_reason now)) d"

subsection \<open>Update Game Settings: \<open>PUT /api/admin/game-settings\<close>\<close>

text \<open>The body's \<open>payoutMultipliers\<close>, when it is there, is an object with some
  of the three keys. Assigning it to the nested path puts exactly its keys
  there: a key it has not is \<open>undefined\<close> afterwards.\<close>

definition update_game_settings_handler ::
  "real option \<Rightarrow> real option \<Rightarrow> real option \<Rightarrow> multipliers option \<Rightarrow> nat \<Rightarrow> jwt \<Rightarrow> db \<Rightarrow>
   gameSettings response \<times> db" where
  "update_game_settings_handler req_houseFee req_maxBet req_minBet req_payoutMultipliers
       now req_user d =
     (let s0 = (case GameSettings_findOne d of None \<Rightarrow> new_GameSettings now | Some s \<Rightarrow> s);
          s1 = (case req_houseFee of None \<Rightarrow> s0 | Some v \<Rightarrow> s0\<lparr>houseFee := v\<rparr>);
          s2 = (case req_maxBet of None \<Rightarrow> s1 | Some v \<Rightarrow> s1\<lparr>maxBet := v\<rparr>);
          s3 = (case req_minBet of None \<Rightarrow> s2 | Some v \<Rightarrow> s2\<lparr>minBet := v\<rparr>);
          s4 = (case req_payoutMultipliers of
                  None \<Rightarrow> s3
                | Some pm \<Rightarrow> s3\<lparr>payoutMultipliers := pm\<rparr>);
          s5 = s4\<lparr>updatedAt := now, updatedBy := Some (jwt_id req_user)\<rparr>
      in (Success s5, d\<lparr>settings := Some s5\<rparr>))"

definition update_game_settings ::
  "auth \<Rightarrow> real option \<Rightarrow> real option \<Rightarrow> real option \<Rightarrow> multipliers option \<Rightarrow> nat \<Rightarrow> db \<Rightarrow>
   gameSettings response \<times> db" where
  "update_game_settings a req_houseFee req_maxBet req_minBet req_payoutMultipliers now d =
     authenticateToken a
       (requireAdmin (update_game_settings_handler req_houseFee req_maxBet req_minBet
          req_payoutMultipliers now)) d"

subsection \<open>The requests\<close>

text \<open>The routes modelled above that change the store. Every route that creates
  or saves a transaction is among them; the routes left out (login, the
  listings, the SMS routes, the statistics) write no transaction and no
  balance.\<close>

datatype request =
    Signup "string \<Rightarrow> string" "string option" "string option" "string option" nat
  | Webhook jsvalue jsvalue "metadata option"
  | RequestWithdrawal auth "real option" nat
  | Play "real \<Rightarrow> nat" auth "real option" "jsvalue list option" "real \<times> real \<times> real" nat
  | CreditUser auth "objectId option" "real option" "string option" nat
  | ApproveWithdrawal auth "objectId option" nat
  | RejectWithdrawal auth "objectId option" "string option" nat
  | UpdateGameSettings auth "real option" "real option" "real option" "multipliers option" nat

fun serve :: "request \<Rightarrow> db \<Rightarrow> db" where
  "serve (Signup h e p ph now) d = snd (signup h e p ph now d)"
| "serve (Webhook st am md) d = snd (webhook st am md d)"
| "serve (RequestWithdrawal a am now) d = snd (request_withdrawal a am now d)"
| "serve (Play ed a b gs rnd now) d = snd (play ed a b gs rnd now d)"
| "serve (CreditUser a i am r now) d = snd (credit_user a i am r now d)"
| "serve (ApproveWithdrawal a i now) d = snd (approve_withdrawal a i now d)"
| "serve (RejectWithdrawal a i r now) d = snd (reject_withdrawal a i r now d)"
| "serve (UpdateGameSettings a hf mx mn pm now) d =
     snd (update_game_settings a hf mx mn pm now d)"

subsection \<open>The states of a withdrawal in the specification\<close>

text \<open>\<open>pending \<rightarrow> {approved, rejected}\<close>, and no way out of \<open>approved\<close> or
  \<open>rejected\<close>: one step keeps the status, or leaves \<open>pending\<close> for one of the
  two.\<close>

definition status_step :: "txStatus \<Rightarrow> txStatus \<Rightarrow> bool" where
  "status_step s s' = (s' = s \<or> s = Pending \<and> (s' = Approved \<or> s' = Rejected))"

subsection \<open>The payout table of the specification\<close>

text \<open>\<open>multiplier[matchCount]\<close> as the specification words it: 0 for no
  match, and the three configured multipliers.\<close>

definition multiplier :: "multipliers \<Rightarrow> nat \<Rightarrow> real option" where
  "multiplier pm m =
     (if m = 0 then Some 0 else if m = 1 then oneMatch pm else if m = 2 then twoMatches pm
      else if m = 3 then threeMatches pm else None)"

subsection \<open>Sample data\<close>

definition alice :: user where
  "alice = \<lparr>uid = 1, email = ''alice@example.com'', password = Some ''hash-a'',
            phone = ''+233200000001'', balance = 50, isAdmin = False, createdAt = 100\<rparr>"

definition boss :: user where
  "boss = \<lparr>uid = 2, email = ''Admin@example.com'', password = Some ''hash-b'',
           phone = ''+233200000002'', balance = 0, isAdmin = True, createdAt = 90\<rparr>"

definition alice_token :: auth where
  "alice_token = Token \<lparr>jwt_id = 1, jwt_email = ''alice@example.com'', jwt_isAdmin = False\<rparr>"

definition boss_token :: auth where
  "boss_token = Token \<lparr>jwt_id = 2, jwt_email = ''Admin@example.com'', jwt_isAdmin = True\<rparr>"

text \<open>A first digit for numbers in exponent notation; no sample guess is one.\<close>

definition digit_one :: "real \<Rightarrow> nat" where
  "digit_one r = 1"

definition db0 :: db where
  "db0 = \<lparr>users = [alice, boss], transactions = [], gameHistories = [], settings = None\<rparr>"

text \<open>A withdrawal of 80 that waits for approval while the account holds 50, and
  one of 20.\<close>

definition wth80 :: transaction where
  "wth80 = \<lparr>tid = 1, userId = 1, ttype = Withdrawal, amount = 80, status = Pending,
            reference = Some (WTH 5 1), processedAt = None, processedBy = None\<rparr>"

definition wth20 :: transaction where
  "wth20 = \<lparr>tid = 2, userId = 1, ttype = Withdrawal, amount = 20, status = Pending,
            reference = Some (WTH 6 1), processedAt = None, processedBy = None\<rparr>"

definition db1 :: db where
  "db1 = \<lparr>users = [alice, boss], transactions = [wth80, wth20], gameHistories = [],
          settings = None\<rparr>"

text \<open>Settings with multipliers 200, 20 and 3.\<close>

definition settings9 :: gameSettings where
  "settings9 = \<lparr>houseFee = 10, maxBet = 1000, minBet = 1,
                payoutMultipliers =
                  \<lparr>threeMatches = Some 200, twoMatches = Some 20, oneMatch = Some 3\<rparr>,
                updatedAt = 7, updatedBy = Some 2\<rparr>"

definition db9 :: db where
  "db9 = \<lparr>users = [alice, boss], transactions = [], gameHistories = [],
          settings = Some settings9\<rparr>"

section \<open>Lemmas about the collections\<close>

lemma findById_uid: "findById i us = Some u \<Longrightarrow> uid u = i"
  unfolding findById_def by (auto simp: find_Some_iff)

lemma findById_save_user:
  "findById i us = Some u \<Longrightarrow> uid u' = uid u \<Longrightarrow> findById i (save_user u' us) = Some u'"
  unfolding findById_def save_user_def
  by (induction us) (auto split: if_splits)

lemma findById_save_user_other:
  "uid u' \<noteq> i \<Longrightarrow> findById i (save_user u' us) = findById i us"
  unfolding findById_def save_user_def
  by (induction us) auto

section \<open>Lemmas about the game\<close>

lemma forEach_matches_count:
  "forEach_matches ed gs w i m =
     m + length (filter (\<lambda>k. i + k < length w \<and> parseInt ed (gs ! k) = Some (w ! (i + k)))
                   [0..<length gs])"
proof (induction gs arbitrary: i m)
  case Nil
  then show ?case by simp
next
  case (Cons g gs)
  have "[0..<length (g # gs)] = 0 # map Suc [0..<length gs]"
    by (simp add: upt_conv_Cons map_Suc_upt del: upt_Suc)
  then show ?case
    by (simp add: Cons.IH filter_map comp_def del: upt_Suc)
qed

lemma forEach_matches_le: "forEach_matches ed gs w i m \<le> m + length gs"
proof -
  have "length (filter P [0..<length gs]) \<le> length gs" for P
    using length_filter_le[of P "[0..<length gs]"] by simp
  then show ?thesis
    by (simp add: forEach_matches_count)
qed

lemma winAmount_of_multiplier:
  "m \<le> 3 \<Longrightarrow> winAmount_of m bet pm = map_option (\<lambda>k. bet * k) (multiplier pm m)"
  by (auto simp: winAmount_of_def multiplier_def)

lemma settle_users:
  "users (snd (settle bet gs w m wa now u d1)) =
     save_user (u\<lparr>balance := balance u + (wa - bet)\<rparr>) (users d1)"
  by (simp add: settle_def Let_def)

lemma settle_cast_error:
  "\<not> list_all castNumber_ok gs \<Longrightarrow> is_error (fst (settle bet gs w m wa now u d1))"
  by (simp add: settle_def Let_def)


lemma settle_transactions_grow:
  "\<exists>new. transactions (snd (settle bet gs w m wa now u d1)) = transactions d1 @ new"
  by (simp add: settle_def Let_def Transaction_create_def)

lemma settle_response:
  "list_all castNumber_ok gs \<Longrightarrow>
   fst (settle bet gs w m wa now u d1) =
     Success (PlayResult w m (wa - bet) (balance u + (wa - bet))
       (if m > 0 then ''You won!'' else ''Better luck next time!''))"
  by (simp add: settle_def Let_def)

lemma play_success:
  assumes "play ed a req_bet req_guesses rnd now d =
             (Success (PlayResult w m pr nb msg), d')"
  shows "\<exists>j bet gs u winAmount. a = Token j \<and> req_bet = Some bet \<and> req_guesses = Some gs \<and>
           0 < bet \<and> length gs = 3 \<and>
           minBet (current_settings now d) \<le> bet \<and> bet \<le> maxBet (current_settings now d) \<and>
           findById (jwt_id j) (users d) = Some u \<and> bet \<le> balance u \<and>
           w = [draw (fst rnd), draw (fst (snd rnd)), draw (snd (snd rnd))] \<and>
           m = forEach_matches ed gs w 0 0 \<and>
           winAmount_of m bet (payoutMultipliers (current_settings now d)) = Some winAmount \<and>
           list_all castNumber_ok gs \<and>
           (Success (PlayResult w m pr nb msg), d') =
             settle bet gs w m winAmount now u (d\<lparr>settings := Some (stored_settings now d)\<rparr>)"
proof -
  let ?R = "(Success (PlayResult w m pr nb msg), d')"
  obtain j where a: "a = Token j"
    using assms by (cases a) (simp_all add: play_def authenticateToken_def)
  have h: "play_handler ed req_bet req_guesses rnd now j d = ?R"
    using assms a by (simp add: play_def authenticateToken_def)
  obtain bet gs where b: "req_bet = Some bet" and g: "req_guesses = Some gs"
    using h by (cases req_bet; cases req_guesses) (simp_all add: play_handler_def)
  note h = h[unfolded b g]
  have v1: "0 < bet \<and> length gs = 3"
  proof (rule ccontr)
    assume "\<not> ?thesis"
    then have "is_error (fst (play_handler ed (Some bet) (Some gs) rnd now j d))"
      by (auto simp: play_handler_def)
    with h show False by simp
  qed
  let ?s = "current_settings now d"
  have v2: "minBet ?s \<le> bet \<and> bet \<le> maxBet ?s"
  proof (rule ccontr)
    assume "\<not> ?thesis"
    then have "is_error (fst (play_handler ed (Some bet) (Some gs) rnd now j d))"
      using v1 by (auto simp: play_handler_def Let_def)
    with h show False by simp
  qed
  obtain u where u: "findById (jwt_id j) (users d) = Some u"
  proof (cases "findById (jwt_id j) (users d)")
    case None
    then have "is_error (fst (play_handler ed (Some bet) (Some gs) rnd now j d))"
      using v1 v2 by (auto simp: play_handler_def Let_def)
    with h show ?thesis by simp
  qed auto
  have v3: "bet \<le> balance u"
  proof (rule ccontr)
    assume "\<not> ?thesis"
    then have "is_error (fst (play_handler ed (Some bet) (Some gs) rnd now j d))"
      using v1 v2 u by (auto simp: play_handler_def Let_def)
    with h show False by simp
  qed
  let ?w = "[draw (fst rnd), draw (fst (snd rnd)), draw (snd (snd rnd))]"
  let ?m = "forEach_matches ed gs ?w 0 0"
  obtain wa where wa: "winAmount_of ?m bet (payoutMultipliers ?s) = Some wa"
  proof (cases "winAmount_of ?m bet (payoutMultipliers ?s)")
    case None
    then have "is_error (fst (play_handler ed (Some bet) (Some gs) rnd now j d))"
      using v1 v2 u v3 by (auto simp: play_handler_def Let_def)
    with h show ?thesis by simp
  qed auto
  have s: "?R = settle bet gs ?w ?m wa now u (d\<lparr>settings := Some (stored_settings now d)\<rparr>)"
    using h v1 v2 u v3 wa by (simp add: play_handler_def Let_def)
  have c: "list_all castNumber_ok gs"
  proof (rule ccontr)
    assume "\<not> ?thesis"
    from settle_cast_error[OF this, of bet ?w ?m wa now u
        "d\<lparr>settings := Some (stored_settings now d)\<rparr>"]
    show False
      unfolding s[symmetric] by simp
  qed
  from arg_cong[OF s, of fst] have r: "w = ?w" "m = ?m"
    by (simp_all add: settle_response[OF c])
  show ?thesis
    using a b g v1 v2 u v3 wa c s r by simp
qed

lemmas sample_defs = play_def authenticateToken_def requireAdmin_def play_handler_def
  current_settings_def stored_settings_def GameSettings_findOne_def new_GameSettings_def
  default_multipliers_def apply_defaults_def or_default_def findById_def findTx_def
  draw_def digit_one_def winAmount_of_def settle_def save_user_def save_tx_def
  Transaction_create_def fresh_def Let_def multiplier_def
  alice_def boss_def alice_token_def boss_token_def db0_def db1_def db9_def
  wth80_def wth20_def settings9_def

section \<open>The claims about the game\<close>

text \<open>C1. For every wager that the game-play operation settles, the profit is
  the bet times the multiplier of the match count, less the bet, where the
  multiplier of no match is 0; and the new balance of the account, as answered
  and as stored, is the old balance plus the profit.\<close>

theorem play_profit_balance:
  assumes "play exp_digit (Token j) req_bet req_guesses rnd now d =
             (Success (PlayResult w m pr nb msg), d')"
  shows "\<exists>bet u k. req_bet = Some bet \<and> findById (jwt_id j) (users d) = Some u \<and>
           multiplier (payoutMultipliers (current_settings now d)) m = Some k \<and>
           multiplier (payoutMultipliers (current_settings now d)) 0 = Some 0 \<and>
           pr = bet * k - bet \<and>
           nb = balance u + pr \<and>
           findById (jwt_id j) (users d') = Some (u\<lparr>balance := balance u + pr\<rparr>)"
proof -
  from play_success[OF assms] obtain bet gs u wa where
    b: "req_bet = Some bet" and l: "length gs = 3" and
    u: "findById (jwt_id j) (users d) = Some u" and
    m: "m = forEach_matches exp_digit gs w 0 0" and
    wa: "winAmount_of m bet (payoutMultipliers (current_settings now d)) = Some wa" and
    c: "list_all castNumber_ok gs" and
    s: "(Success (PlayResult w m pr nb msg), d') =
          settle bet gs w m wa now u (d\<lparr>settings := Some (stored_settings now d)\<rparr>)"
    by auto
  have "m \<le> 3"
    using forEach_matches_le[of exp_digit gs w 0 0] l m by simp
  with wa obtain k where
    k: "multiplier (payoutMultipliers (current_settings now d)) m = Some k" and wk: "wa = bet * k"
    by (auto simp: winAmount_of_multiplier)
  from arg_cong[OF s, of fst] have pr: "pr = wa - bet" and nb: "nb = balance u + (wa - bet)"
    by (simp_all add: settle_response[OF c])
  from arg_cong[OF s, of "\<lambda>x. users (snd x)"]
  have us: "users d' = save_user (u\<lparr>balance := balance u + (wa - bet)\<rparr>) (users d)"
    by (simp add: settle_users)
  have "findById (jwt_id j) (users d') = Some (u\<lparr>balance := balance u + pr\<rparr>)"
    unfolding us pr by (rule findById_save_user[OF u]) simp
  then show ?thesis
    using b u k wk pr nb by (simp add: multiplier_def)
qed

theorem play_profit_balance_witness:
  "fst (play digit_one
          (Token \<lparr>jwt_id = 1, jwt_email = ''alice@example.com'', jwt_isAdmin = False\<rparr>)
          (Some 10) (Some [JNum 4, JNum 4, JNum 4]) (0.45, 0.45, 0.95) 3 db0) =
     Success (PlayResult [4, 4, 9] 2 90 140 ''You won!'') \<and>
   (\<exists>bet u k. Some (10::real) = Some bet \<and> findById 1 (users db0) = Some u \<and>
      multiplier (payoutMultipliers (current_settings 3 db0)) 2 = Some k \<and>
      multiplier (payoutMultipliers (current_settings 3 db0)) 0 = Some 0 \<and>
      (90::real) = bet * k - bet \<and> (140::real) = balance u + 90)"
proof -
  let ?a = "Token \<lparr>jwt_id = 1, jwt_email = ''alice@example.com'', jwt_isAdmin = False\<rparr>"
  let ?X = "play digit_one ?a (Some 10) (Some [JNum 4, JNum 4, JNum 4]) (0.45, 0.45, 0.95) 3 db0"
  have e: "?X = (Success (PlayResult [4, 4, 9] 2 90 140 ''You won!''), snd ?X)"
    by (simp add: sample_defs)
  have "fst ?X = Success (PlayResult [4, 4, 9] 2 90 140 ''You won!'')"
    using e by (metis fst_conv)
  moreover from play_profit_balance[OF e]
  have "\<exists>bet u k. Some (10::real) = Some bet \<and> findById 1 (users db0) = Some u \<and>
      multiplier (payoutMultipliers (current_settings 3 db0)) 2 = Some k \<and>
      multiplier (payoutMultipliers (current_settings 3 db0)) 0 = Some 0 \<and>
      (90::real) = bet * k - bet \<and> (140::real) = balance u + 90"
    by auto
  ultimately show ?thesis by (rule conjI)
qed

lemma parseInt_whole:
  assumes "\<bar>n\<bar> < 10 ^ 21"
  shows "parseInt ed (JNum (of_int n)) = Some n"
proof (cases "n = 0")
  case True
  then show ?thesis by simp
next
  case False
  then have "1 \<le> \<bar>n\<bar>"
    by arith
  then have "real_of_int 1 \<le> real_of_int \<bar>n\<bar>"
    by (simp only: of_int_le_iff)
  then have lo: "\<not> \<bar>real_of_int n\<bar> < 1 / 10 ^ 6"
    by simp
  have "real_of_int \<bar>n\<bar> < real_of_int (10 ^ 21)"
    using assms by (simp only: of_int_less_iff)
  then have hi: "\<not> 10 ^ 21 \<le> \<bar>real_of_int n\<bar>"
    by simp
  show ?thesis
    using False lo hi by simp
qed

text \<open>C2, as the code has it. On every settled wager the match count is the
  number of positions \<open>i < 3\<close> at which \<open>parseInt\<close> of the guess equals the drawn
  digit of the same position. For guesses that are whole numbers below
  \<open>10^21\<close> in magnitude, single digits among them, that is the number of
  positions at which the guess equals the drawn digit. The count is by
  position: the guesses 1, 2, 3 against the draw 3, 2, 1 match once.\<close>

theorem play_matches_parseInt:
  assumes "play exp_digit a req_bet (Some gs) rnd now d =
             (Success (PlayResult w m pr nb msg), d')"
  shows "length gs = 3 \<and>
         w = [draw (fst rnd), draw (fst (snd rnd)), draw (snd (snd rnd))] \<and>
         m = length (filter (\<lambda>i. parseInt exp_digit (gs ! i) = Some (w ! i)) [0..<3]) \<and>
         (\<forall>ns. gs = map (\<lambda>n. JNum (of_int n)) ns \<and> (\<forall>n\<in>set ns. \<bar>n\<bar> < 10 ^ 21) \<longrightarrow>
            m = length (filter (\<lambda>i. ns ! i = w ! i) [0..<3]))"
proof -
  from play_success[OF assms] have
    l: "length gs = 3" and
    w: "w = [draw (fst rnd), draw (fst (snd rnd)), draw (snd (snd rnd))]" and
    m: "m = forEach_matches exp_digit gs w 0 0"
    by auto
  have lw: "length w = 3"
    using w by simp
  have "filter (\<lambda>k. k < length w \<and> parseInt exp_digit (gs ! k) = Some (w ! k)) [0..<3] =
        filter (\<lambda>i. parseInt exp_digit (gs ! i) = Some (w ! i)) [0..<3]"
    using lw by (intro filter_cong) auto
  then have c: "m = length (filter (\<lambda>i. parseInt exp_digit (gs ! i) = Some (w ! i)) [0..<3])"
    using l m by (simp add: forEach_matches_count del: upt_Suc)
  have "m = length (filter (\<lambda>i. ns ! i = w ! i) [0..<3])"
    if ns: "gs = map (\<lambda>n. JNum (of_int n)) ns" and small: "\<forall>n\<in>set ns. \<bar>n\<bar> < 10 ^ 21" for ns
  proof -
    have ln: "length ns = 3"
      using l ns by simp
    have "parseInt exp_digit (gs ! i) = Some (ns ! i)" if "i < 3" for i
    proof -
      have "gs ! i = JNum (of_int (ns ! i))" and "\<bar>ns ! i\<bar> < 10 ^ 21"
        using that ln ns small by simp_all
      then show ?thesis
        by (simp only: parseInt_whole)
    qed
    then have "filter (\<lambda>i. parseInt exp_digit (gs ! i) = Some (w ! i)) [0..<3] =
               filter (\<lambda>i. ns ! i = w ! i) [0..<3]"
      by (intro filter_cong) auto
    with c show ?thesis by simp
  qed
  with l w c show ?thesis
    by blast
qed

theorem play_matches_parseInt_witness:
  "fst (play digit_one alice_token (Some 5) (Some [JNum 1, JNum 2, JNum 3])
          (0.35, 0.25, 0.15) 3 db0) =
     Success (PlayResult [3, 2, 1] 1 5 55 ''You won!'') \<and>
   (1::nat) = length (filter (\<lambda>i. [1, 2, 3 :: int] ! i = [3, 2, 1 :: int] ! i) [0..<3])"
proof -
  let ?X = "play digit_one alice_token (Some 5) (Some [JNum 1, JNum 2, JNum 3])
              (0.35, 0.25, 0.15) 3 db0"
  have e: "?X = (Success (PlayResult [3, 2, 1] 1 5 55 ''You won!''), snd ?X)"
    by (simp add: sample_defs)
  have g: "[JNum 1, JNum 2, JNum 3] = map (\<lambda>n. JNum (of_int n)) [1, 2, 3] \<and>
           (\<forall>n\<in>set [1, 2, 3 :: int]. \<bar>n\<bar> < 10 ^ 21)"
    by simp
  have "fst ?X = Success (PlayResult [3, 2, 1] 1 5 55 ''You won!'')"
    using e by (metis fst_conv)
  moreover from play_matches_parseInt[OF e, THEN conjunct2, THEN conjunct2, THEN conjunct2,
      THEN spec, of "[1, 2, 3]", THEN mp, OF g]
  have "(1::nat) = length (filter (\<lambda>i. [1, 2, 3 :: int] ! i = [3, 2, 1 :: int] ! i) [0..<3])" .
  ultimately show ?thesis by (rule conjI)
qed

text \<open>The claim as it is worded fails: the guesses 4.5, 5, 5 against the draw
  4, 1, 9 equal the drawn digit at no position, and the match count is 1,
  since \<open>parseInt(4.5)\<close> is 4.\<close>

theorem play_matches_counterexample:
  "fst (play digit_one alice_token (Some 5) (Some [JNum 4.5, JNum 5, JNum 5])
          (0.45, 0.15, 0.95) 3 db0) =
     Success (PlayResult [4, 1, 9] 1 5 55 ''You won!'') \<and>
   JNum 4.5 \<noteq> JNum 4 \<and> JNum 5 \<noteq> JNum 1 \<and> JNum 5 \<noteq> JNum 9"
  by (simp add: sample_defs)

text \<open>C3. A game-play request whose bet is below \<open>minBet\<close>, above \<open>maxBet\<close>
  or above the balance of the account is answered with an error, and no
  balance changes.\<close>

theorem play_rejects_bad_bet:
  assumes "bet < minBet (current_settings now d) \<or> bet > maxBet (current_settings now d) \<or>
           (\<exists>j u. a = Token j \<and> findById (jwt_id j) (users d) = Some u \<and> bet > balance u)"
  shows "(\<exists>c e. fst (play exp_digit a (Some bet) req_guesses rnd now d) = Error c e \<and>
            (c = 400 \<or> c = 401 \<and> a = NoToken \<or> c = 403 \<and> a = InvalidToken)) \<and>
         users (snd (play exp_digit a (Some bet) req_guesses rnd now d)) = users d"
proof (cases a)
  case NoToken
  then show ?thesis by (simp add: play_def authenticateToken_def)
next
  case InvalidToken
  then show ?thesis by (simp add: play_def authenticateToken_def)
next
  case (Token j)
  show ?thesis
  proof (cases req_guesses)
    case None
    then show ?thesis using Token by (simp add: play_def authenticateToken_def play_handler_def)
  next
    case (Some gs)
    show ?thesis
    proof (cases "bet = 0 \<or> bet \<le> 0 \<or> length gs \<noteq> 3")
      case True
      then show ?thesis
        using Token Some by (simp add: play_def authenticateToken_def play_handler_def)
    next
      case valid: False
      show ?thesis
      proof (cases "bet < minBet (current_settings now d) \<or> bet > maxBet (current_settings now d)")
        case True
        then show ?thesis
          using Token Some valid
          by (simp add: play_def authenticateToken_def play_handler_def Let_def)
      next
        case False
        with assms Token obtain u where
          "findById (jwt_id j) (users d) = Some u" "bet > balance u"
          by auto
        then show ?thesis
          using Token Some valid False
          by (simp add: play_def authenticateToken_def play_handler_def Let_def)
      qed
    qed
  qed
qed

theorem play_rejects_bad_bet_witness:
  "fst (play digit_one alice_token (Some 0.5) (Some [JNum 1, JNum 2, JNum 3]) (0.35, 0.25, 0.15) 3 db0) =
     Error 400 ''Bet must be between GHS minBet and GHS maxBet'' \<and>
   fst (play digit_one alice_token (Some 2000) (Some [JNum 1, JNum 2, JNum 3]) (0.35, 0.25, 0.15) 3 db0) =
     Error 400 ''Bet must be between GHS minBet and GHS maxBet'' \<and>
   fst (play digit_one alice_token (Some 60) (Some [JNum 1, JNum 2, JNum 3]) (0.35, 0.25, 0.15) 3 db0) =
     Error 400 ''Insufficient balance'' \<and>
   users (snd (play digit_one alice_token (Some 0.5) (Some [JNum 1, JNum 2, JNum 3]) (0.35, 0.25, 0.15) 3 db0)) =
     users db0 \<and>
   users (snd (play digit_one alice_token (Some 2000) (Some [JNum 1, JNum 2, JNum 3]) (0.35, 0.25, 0.15) 3 db0)) =
     users db0 \<and>
   users (snd (play digit_one alice_token (Some 60) (Some [JNum 1, JNum 2, JNum 3]) (0.35, 0.25, 0.15) 3 db0)) =
     users db0"
proof -
  have lo: "(0.5::real) < minBet (current_settings 3 db0) \<or>
            (0.5::real) > maxBet (current_settings 3 db0) \<or>
            (\<exists>j u. alice_token = Token j \<and> findById (jwt_id j) (users db0) = Some u \<and>
                   0.5 > balance u)"
    by (simp add: sample_defs)
  have hi: "(2000::real) < minBet (current_settings 3 db0) \<or>
            (2000::real) > maxBet (current_settings 3 db0) \<or>
            (\<exists>j u. alice_token = Token j \<and> findById (jwt_id j) (users db0) = Some u \<and>
                   2000 > balance u)"
    by (simp add: sample_defs)
  have bal: "(60::real) < minBet (current_settings 3 db0) \<or>
            (60::real) > maxBet (current_settings 3 db0) \<or>
            (\<exists>j u. alice_token = Token j \<and> findById (jwt_id j) (users db0) = Some u \<and>
                   60 > balance u)"
    by (simp add: sample_defs)
  have "fst (play digit_one alice_token (Some 0.5) (Some [JNum 1, JNum 2, JNum 3]) (0.35, 0.25, 0.15) 3 db0) =
          Error 400 ''Bet must be between GHS minBet and GHS maxBet''"
       "fst (play digit_one alice_token (Some 2000) (Some [JNum 1, JNum 2, JNum 3]) (0.35, 0.25, 0.15) 3 db0) =
          Error 400 ''Bet must be between GHS minBet and GHS maxBet''"
       "fst (play digit_one alice_token (Some 60) (Some [JNum 1, JNum 2, JNum 3]) (0.35, 0.25, 0.15) 3 db0) =
          Error 400 ''Insufficient balance''"
    by (simp_all add: sample_defs)
  then show ?thesis
    using play_rejects_bad_bet[OF lo, of digit_one "Some [JNum 1, JNum 2, JNum 3]"
        "(0.35, 0.25, 0.15)"]
      play_rejects_bad_bet[OF hi, of digit_one "Some [JNum 1, JNum 2, JNum 3]"
        "(0.35, 0.25, 0.15)"]
      play_rejects_bad_bet[OF bal, of digit_one "Some [JNum 1, JNum 2, JNum 3]"
        "(0.35, 0.25, 0.15)"]
    by simp
qed




section \<open>Lemmas about the ledger\<close>

lemma findTx_tid: "findTx i ts = Some t \<Longrightarrow> tid t = i"
  unfolding findTx_def by (auto simp: find_Some_iff)

lemma findTx_save_tx:
  "findTx i ts = Some t \<Longrightarrow> tid t' = tid t \<Longrightarrow> findTx i (save_tx t' ts) = Some t'"
  unfolding findTx_def save_tx_def
  by (induction ts) (auto split: if_splits)

lemma findTx_save_tx_other:
  "tid t' \<noteq> i \<Longrightarrow> findTx i (save_tx t' ts) = findTx i ts"
  unfolding findTx_def save_tx_def
  by (induction ts) auto

lemma findTx_append: "findTx i ts = Some t \<Longrightarrow> findTx i (ts @ new) = Some t"
  unfolding findTx_def by (induction ts) (auto split: if_splits)

lemma findTx_create:
  "findTx i ts = Some t \<Longrightarrow> findTx i (Transaction_create u ty a st r pa pb ts) = Some t"
  by (simp add: Transaction_create_def findTx_append)

section \<open>The claims about withdrawals\<close>

text \<open>C4. Approving a pending withdrawal whose amount exceeds the current
  balance of the account fails with an error; the store is left as it was, so
  the transaction is still pending and the balance is unchanged.\<close>

theorem approve_insufficient_balance:
  assumes "findTx i (transactions d) = Some t" and "status t = Pending"
    and "findById (userId t) (users d) = Some u" and "balance u < amount t"
  shows "is_error (fst (approve_withdrawal a (Some i) now d)) \<and>
         snd (approve_withdrawal a (Some i) now d) = d \<and>
         findTx i (transactions (snd (approve_withdrawal a (Some i) now d))) = Some t \<and>
         findById (userId t) (users (snd (approve_withdrawal a (Some i) now d))) = Some u \<and>
         (\<forall>j. a = Token j \<and> jwt_isAdmin j \<longrightarrow>
            fst (approve_withdrawal a (Some i) now d) =
              Error 400 ''User has insufficient balance'')"
  using assms
  by (cases a)
     (simp_all add: approve_withdrawal_def authenticateToken_def requireAdmin_def
        approve_withdrawal_handler_def Transaction_findById_def)

theorem approve_insufficient_balance_witness:
  "findTx 1 (transactions db1) = Some wth80 \<and> status wth80 = Pending \<and>
   findById (userId wth80) (users db1) = Some alice \<and> balance alice < amount wth80 \<and>
   approve_withdrawal boss_token (Some 1) 9 db1 =
     (Error 400 ''User has insufficient balance'', db1)"
proof -
  have h: "findTx 1 (transactions db1) = Some wth80" "status wth80 = Pending"
    "findById (userId wth80) (users db1) = Some alice" "balance alice < amount wth80"
    by (simp_all add: sample_defs)
  have b: "boss_token = Token \<lparr>jwt_id = 2, jwt_email = ''Admin@example.com'', jwt_isAdmin = True\<rparr>"
    by (simp add: boss_token_def)
  from approve_insufficient_balance[OF h, of boss_token 9] b
  have "approve_withdrawal boss_token (Some 1) 9 db1 =
     (Error 400 ''User has insufficient balance'', db1)"
    by (metis jwt.select_convs(3) prod.collapse)
  with h show ?thesis by simp
qed

lemma approve_conflict:
  assumes "findTx i (transactions d) = Some t" and "status t \<noteq> Pending" and "jwt_isAdmin j"
  shows "approve_withdrawal (Token j) (Some i) now d =
           (Error 400 ''Transaction already processed'', d)"
  using assms
  by (simp add: approve_withdrawal_def authenticateToken_def requireAdmin_def
        approve_withdrawal_handler_def Transaction_findById_def)

lemma reject_conflict:
  assumes "findTx i (transactions d) = Some t" and "status t \<noteq> Pending" and "jwt_isAdmin j"
  shows "reject_withdrawal (Token j) (Some i) reason now d =
           (Error 400 ''Transaction already processed'', d)"
  using assms
  by (simp add: reject_withdrawal_def authenticateToken_def requireAdmin_def
        reject_withdrawal_handler_def Transaction_findById_def)

lemma approve_success:
  assumes "fst (approve_withdrawal a (Some i) now d) = Success msg"
  shows "\<exists>j t u. a = Token j \<and> jwt_isAdmin j \<and> findTx i (transactions d) = Some t \<and>
           status t = Pending \<and> findById (userId t) (users d) = Some u \<and>
           amount t \<le> balance u \<and>
           findTx i (transactions (snd (approve_withdrawal a (Some i) now d))) =
             Some (t\<lparr>status := Approved, processedAt := Some now,
                     processedBy := Some (jwt_id j)\<rparr>) \<and>
           users (snd (approve_withdrawal a (Some i) now d)) =
             save_user (u\<lparr>balance := balance u - amount t\<rparr>) (users d)"
proof -
  obtain j where a: "a = Token j" and adm: "jwt_isAdmin j"
    using assms
    by (cases a) (auto simp: approve_withdrawal_def authenticateToken_def requireAdmin_def
        split: if_splits)
  have h: "fst (approve_withdrawal_handler (Some i) now j d) = Success msg"
    using assms a adm
    by (simp add: approve_withdrawal_def authenticateToken_def requireAdmin_def)
  obtain t where t: "findTx i (transactions d) = Some t"
    using h by (cases "findTx i (transactions d)")
      (auto simp: approve_withdrawal_handler_def Transaction_findById_def)
  have p: "status t = Pending"
    using h t by (auto simp: approve_withdrawal_handler_def Transaction_findById_def
        split: if_splits)
  obtain u where u: "findById (userId t) (users d) = Some u"
    using h t p by (cases "findById (userId t) (users d)")
      (auto simp: approve_withdrawal_handler_def Transaction_findById_def)
  have b: "amount t \<le> balance u"
    using h t p u by (auto simp: approve_withdrawal_handler_def Transaction_findById_def
        split: if_splits)
  have r: "snd (approve_withdrawal a (Some i) now d) =
      d\<lparr>users := save_user (u\<lparr>balance := balance u - amount t\<rparr>) (users d),
        transactions := save_tx (t\<lparr>status := Approved, processedAt := Some now,
                     processedBy := Some (jwt_id j)\<rparr>) (transactions d)\<rparr>"
    using a adm t p u b
    by (simp add: approve_withdrawal_def authenticateToken_def requireAdmin_def
        approve_withdrawal_handler_def Transaction_findById_def Let_def)
  have "findTx i (transactions (snd (approve_withdrawal a (Some i) now d))) =
             Some (t\<lparr>status := Approved, processedAt := Some now,
                     processedBy := Some (jwt_id j)\<rparr>)"
    unfolding r using findTx_save_tx[OF t] by simp
  then show ?thesis
    using a adm t p u b r by simp
qed

lemma reject_success:
  assumes "fst (reject_withdrawal a (Some i) reason now d) = Success msg"
  shows "\<exists>j t. a = Token j \<and> jwt_isAdmin j \<and> findTx i (transactions d) = Some t \<and>
           status t = Pending \<and>
           findTx i (transactions (snd (reject_withdrawal a (Some i) reason now d))) =
             Some (t\<lparr>status := Rejected, processedAt := Some now,
                     processedBy := Some (jwt_id j),
                     reference := Some (Text (reason_or reason ''Rejected by admin''))\<rparr>) \<and>
           users (snd (reject_withdrawal a (Some i) reason now d)) = users d"
proof -
  obtain j where a: "a = Token j" and adm: "jwt_isAdmin j"
    using assms
    by (cases a) (auto simp: reject_withdrawal_def authenticateToken_def requireAdmin_def
        split: if_splits)
  have h: "fst (reject_withdrawal_handler (Some i) reason now j d) = Success msg"
    using assms a adm
    by (simp add: reject_withdrawal_def authenticateToken_def requireAdmin_def)
  obtain t where t: "findTx i (transactions d) = Some t"
    using h by (cases "findTx i (transactions d)")
      (auto simp: reject_withdrawal_handler_def Transaction_findById_def)
  have p: "status t = Pending"
    using h t by (auto simp: reject_withdrawal_handler_def Transaction_findById_def
        split: if_splits)
  have r: "snd (reject_withdrawal a (Some i) reason now d) =
      d\<lparr>transactions := save_tx (t\<lparr>status := Rejected, processedAt := Some now,
                     processedBy := Some (jwt_id j),
                     reference := Some (Text (reason_or reason ''Rejected by admin''))\<rparr>)
                     (transactions d)\<rparr>"
    using a adm t p
    by (simp add: reject_withdrawal_def authenticateToken_def requireAdmin_def
        reject_withdrawal_handler_def Transaction_findById_def Let_def)
  have "findTx i (transactions (snd (reject_withdrawal a (Some i) reason now d))) =
             Some (t\<lparr>status := Rejected, processedAt := Some now,
                     processedBy := Some (jwt_id j),
                     reference := Some (Text (reason_or reason ''Rejected by admin''))\<rparr>)"
    unfolding r using findTx_save_tx[OF t] by simp
  then show ?thesis
    using a adm t p r by simp
qed

lemma play_transactions:
  "\<exists>new. transactions (snd (play ed a b g rnd now d)) = transactions d @ new"
proof -
  have s: "\<exists>new. transactions (snd (settle bet gs w m wa now u (d\<lparr>settings := x\<rparr>))) =
             transactions d @ new" for bet gs w m wa u x
    using settle_transactions_grow[of bet gs w m wa now u "d\<lparr>settings := x\<rparr>"] by simp
  show ?thesis
    by (cases a; cases b; cases g)
       (auto simp: play_def authenticateToken_def play_handler_def Let_def s
          split: option.splits)
qed

lemma request_withdrawal_transactions:
  "\<exists>new. transactions (snd (request_withdrawal a am now d)) = transactions d @ new"
  by (cases a; cases am)
     (auto simp: request_withdrawal_def authenticateToken_def request_withdrawal_handler_def
        Let_def Transaction_create_def split: option.splits)

lemma credit_user_transactions:
  "\<exists>new. transactions (snd (credit_user a i am r now d)) = transactions d @ new"
  by (cases a; cases i; cases am)
     (auto simp: credit_user_def authenticateToken_def requireAdmin_def credit_user_handler_def
        Let_def Transaction_create_def split: option.splits)

lemma signup_transactions:
  "transactions (snd (signup h e p ph now d)) = transactions d"
  by (cases e; cases p; cases ph) (auto simp: signup_def Let_def split: option.splits)

lemma webhook_transactions:
  "transactions (snd (webhook st am md d)) = transactions d"
  by (auto simp: webhook_def split: option.splits)

lemma update_game_settings_transactions:
  "transactions (snd (update_game_settings a hf mx mn pm now d)) = transactions d"
  by (cases a)
     (auto simp: update_game_settings_def authenticateToken_def requireAdmin_def
        update_game_settings_handler_def Let_def)

lemma approve_transactions:
  "transactions (snd (approve_withdrawal a i now d)) = transactions d \<or>
   (\<exists>t pb. Transaction_findById i d = Some t \<and> status t = Pending \<and>
      transactions (snd (approve_withdrawal a i now d)) =
        save_tx (t\<lparr>status := Approved, processedAt := Some now, processedBy := pb\<rparr>)
          (transactions d))"
  by (cases a)
     (auto simp: approve_withdrawal_def authenticateToken_def requireAdmin_def
        approve_withdrawal_handler_def Let_def split: option.splits)

lemma reject_transactions:
  "transactions (snd (reject_withdrawal a i r now d)) = transactions d \<or>
   (\<exists>t pb. Transaction_findById i d = Some t \<and> status t = Pending \<and>
      transactions (snd (reject_withdrawal a i r now d)) =
        save_tx (t\<lparr>status := Rejected, processedAt := Some now, processedBy := pb,
                   reference := Some (Text (reason_or r ''Rejected by admin''))\<rparr>)
          (transactions d))"
  by (cases a)
     (auto simp: reject_withdrawal_def authenticateToken_def requireAdmin_def
        reject_withdrawal_handler_def Let_def split: option.splits)

lemma save_tx_step:
  assumes "Transaction_findById k d = Some t0" and "status t0 = Pending"
    and "tid t' = tid t0" and "status t' = Approved \<or> status t' = Rejected"
    and "findTx i (transactions d) = Some t"
  shows "\<exists>t''. findTx i (save_tx t' (transactions d)) = Some t'' \<and>
           status_step (status t) (status t'')"
proof (cases "tid t0 = i")
  case True
  obtain k' where k: "k = Some k'" "findTx k' (transactions d) = Some t0"
    using assms(1) by (cases k) (auto simp: Transaction_findById_def)
  have "k' = i"
    using findTx_tid[OF k(2)] True by simp
  with k assms(5) have "t = t0" by simp
  moreover have "findTx i (save_tx t' (transactions d)) = Some t'"
    using findTx_save_tx[OF assms(5), of t'] assms(3) \<open>t = t0\<close> by simp
  ultimately show ?thesis
    using assms(2,4) by (auto simp: status_step_def)
next
  case False
  then have "findTx i (save_tx t' (transactions d)) = findTx i (transactions d)"
    using assms(3) by (simp add: findTx_save_tx_other)
  then show ?thesis
    using assms(5) by (simp add: status_step_def)
qed

lemma serve_status_step:
  assumes "findTx i (transactions d) = Some t"
  shows "\<exists>t'. findTx i (transactions (serve r d)) = Some t' \<and>
           status_step (status t) (status t')"
proof -
  have same: "\<exists>t'. findTx i ts' = Some t' \<and> status_step (status t) (status t')"
    if "\<exists>new. ts' = transactions d @ new" for ts'
    using that assms by (auto simp: findTx_append status_step_def)
  show ?thesis
  proof (cases r)
    case (Signup h e p ph now)
    then show ?thesis
      using same[of "transactions d"] by (simp add: signup_transactions)
  next
    case (Webhook st am md)
    then show ?thesis
      using same[of "transactions d"] by (simp add: webhook_transactions)
  next
    case (RequestWithdrawal a am now)
    then show ?thesis
      using same[OF request_withdrawal_transactions] by simp
  next
    case (Play ed a b gs rnd now)
    then show ?thesis
      using same[OF play_transactions] by simp
  next
    case (CreditUser a k am re now)
    then show ?thesis
      using same[OF credit_user_transactions] by simp
  next
    case (ApproveWithdrawal a k now)
    from approve_transactions[of a k now d] show ?thesis
    proof (elim disjE exE conjE)
      assume "transactions (snd (approve_withdrawal a k now d)) = transactions d"
      then show ?thesis
        using same[of "transactions d"] ApproveWithdrawal by simp
    next
      fix t0 pb
      assume t0: "Transaction_findById k d = Some t0" "status t0 = Pending"
        and ts: "transactions (snd (approve_withdrawal a k now d)) =
               save_tx (t0\<lparr>status := Approved, processedAt := Some now,
                   processedBy := pb\<rparr>) (transactions d)"
      from save_tx_step[OF t0 _ _ assms, of "t0\<lparr>status := Approved,
            processedAt := Some now, processedBy := pb\<rparr>"]
      show ?thesis
        using ts ApproveWithdrawal by simp
    qed
  next
    case (RejectWithdrawal a k re now)
    from reject_transactions[of a k re now d] show ?thesis
    proof (elim disjE exE conjE)
      assume "transactions (snd (reject_withdrawal a k re now d)) = transactions d"
      then show ?thesis
        using same[of "transactions d"] RejectWithdrawal by simp
    next
      fix t0 pb
      assume t0: "Transaction_findById k d = Some t0" "status t0 = Pending"
        and ts: "transactions (snd (reject_withdrawal a k re now d)) =
               save_tx (t0\<lparr>status := Rejected, processedAt := Some now,
                   processedBy := pb,
                   reference := Some (Text (reason_or re ''Rejected by admin''))\<rparr>)
                 (transactions d)"
      from save_tx_step[OF t0 _ _ assms, of "t0\<lparr>status := Rejected,
            processedAt := Some now, processedBy := pb,
            reference := Some (Text (reason_or re ''Rejected by admin''))\<rparr>"]
      show ?thesis
        using ts RejectWithdrawal by simp
    qed
  next
    case (UpdateGameSettings a hf mx mn pm now)
    then show ?thesis
      using same[of "transactions d"] by (simp add: update_game_settings_transactions)
  qed
qed

lemmas admin_defs = approve_withdrawal_def reject_withdrawal_def
  approve_withdrawal_handler_def reject_withdrawal_handler_def Transaction_findById_def
  reason_or_def

text \<open>C5. A transaction changes its status only from pending to approved or from
  pending to rejected, whatever the request; approving and rejecting succeed
  only on a pending transaction; on any other status an administrator's
  attempt is answered with the conflict error and changes nothing; so after
  one approval or rejection every further attempt on the same id is a
  conflict.\<close>

theorem withdrawal_status_machine:
  "(findTx i (transactions d) = Some t \<longrightarrow>
      (\<exists>t'. findTx i (transactions (serve r d)) = Some t' \<and>
            status_step (status t) (status t'))) \<and>
   (findTx i (transactions d) = Some t \<and> status t \<noteq> Pending \<and> jwt_isAdmin j \<longrightarrow>
      approve_withdrawal (Token j) (Some i) now d =
        (Error 400 ''Transaction already processed'', d) \<and>
      reject_withdrawal (Token j) (Some i) reason now d =
        (Error 400 ''Transaction already processed'', d)) \<and>
   (fst (approve_withdrawal a (Some i) now d) = Success msg \<and> jwt_isAdmin j \<longrightarrow>
      (\<exists>t0 t1. findTx i (transactions d) = Some t0 \<and> status t0 = Pending \<and>
         findTx i (transactions (snd (approve_withdrawal a (Some i) now d))) = Some t1 \<and>
         status t1 = Approved) \<and>
      approve_withdrawal (Token j) (Some i) now' (snd (approve_withdrawal a (Some i) now d)) =
        (Error 400 ''Transaction already processed'',
         snd (approve_withdrawal a (Some i) now d)) \<and>
      reject_withdrawal (Token j) (Some i) reason' now'
          (snd (approve_withdrawal a (Some i) now d)) =
        (Error 400 ''Transaction already processed'',
         snd (approve_withdrawal a (Some i) now d))) \<and>
   (fst (reject_withdrawal a (Some i) reason now d) = Success msg \<and> jwt_isAdmin j \<longrightarrow>
      (\<exists>t0 t1. findTx i (transactions d) = Some t0 \<and> status t0 = Pending \<and>
         findTx i (transactions (snd (reject_withdrawal a (Some i) reason now d))) = Some t1 \<and>
         status t1 = Rejected) \<and>
      users (snd (reject_withdrawal a (Some i) reason now d)) = users d \<and>
      approve_withdrawal (Token j) (Some i) now'
          (snd (reject_withdrawal a (Some i) reason now d)) =
        (Error 400 ''Transaction already processed'',
         snd (reject_withdrawal a (Some i) reason now d)) \<and>
      reject_withdrawal (Token j) (Some i) reason' now'
          (snd (reject_withdrawal a (Some i) reason now d)) =
        (Error 400 ''Transaction already processed'',
         snd (reject_withdrawal a (Some i) reason now d)))"
proof (intro conjI impI)
  assume "findTx i (transactions d) = Some t"
  then show "\<exists>t'. findTx i (transactions (serve r d)) = Some t' \<and>
      status_step (status t) (status t')"
    by (rule serve_status_step)
next
  assume h: "findTx i (transactions d) = Some t \<and> status t \<noteq> Pending \<and> jwt_isAdmin j"
  then show "approve_withdrawal (Token j) (Some i) now d =
        (Error 400 ''Transaction already processed'', d)"
    by (simp add: approve_conflict)
  from h show "reject_withdrawal (Token j) (Some i) reason now d =
        (Error 400 ''Transaction already processed'', d)"
    by (simp add: reject_conflict)
next
  let ?d' = "snd (approve_withdrawal a (Some i) now d)"
  assume h: "fst (approve_withdrawal a (Some i) now d) = Success msg \<and> jwt_isAdmin j"
  from approve_success[of a i now d msg] h obtain t0 t1 where
    t0: "findTx i (transactions d) = Some t0" "status t0 = Pending" and
    t1: "findTx i (transactions ?d') = Some t1" "status t1 = Approved"
    by auto
  then show "\<exists>t0 t1. findTx i (transactions d) = Some t0 \<and> status t0 = Pending \<and>
         findTx i (transactions ?d') = Some t1 \<and> status t1 = Approved"
    by blast
  show "approve_withdrawal (Token j) (Some i) now' ?d' =
        (Error 400 ''Transaction already processed'', ?d')"
    using t1 h by (simp add: approve_conflict)
  show "reject_withdrawal (Token j) (Some i) reason' now' ?d' =
        (Error 400 ''Transaction already processed'', ?d')"
    using t1 h by (simp add: reject_conflict)
next
  let ?d' = "snd (reject_withdrawal a (Some i) reason now d)"
  assume h: "fst (reject_withdrawal a (Some i) reason now d) = Success msg \<and> jwt_isAdmin j"
  from reject_success[of a i reason now d msg] h obtain t0 t1 where
    t0: "findTx i (transactions d) = Some t0" "status t0 = Pending" and
    t1: "findTx i (transactions ?d') = Some t1" "status t1 = Rejected" and
    us: "users ?d' = users d"
    by auto
  then show "\<exists>t0 t1. findTx i (transactions d) = Some t0 \<and> status t0 = Pending \<and>
         findTx i (transactions ?d') = Some t1 \<and> status t1 = Rejected"
    by blast
  show "users ?d' = users d"
    by (rule us)
  show "approve_withdrawal (Token j) (Some i) now' ?d' =
        (Error 400 ''Transaction already processed'', ?d')"
    using t1 h by (simp add: approve_conflict)
  show "reject_withdrawal (Token j) (Some i) reason' now' ?d' =
        (Error 400 ''Transaction already processed'', ?d')"
    using t1 h by (simp add: reject_conflict)
qed

theorem withdrawal_status_machine_witness:
  "(\<exists>t'. findTx 2 (transactions (serve (ApproveWithdrawal boss_token (Some 2) 9) db1)) = Some t' \<and>
         status_step (status wth20) (status t')) \<and>
   approve_withdrawal boss_token (Some 2) 10 (snd (approve_withdrawal boss_token (Some 2) 9 db1)) =
     (Error 400 ''Transaction already processed'',
      snd (approve_withdrawal boss_token (Some 2) 9 db1)) \<and>
   reject_withdrawal boss_token (Some 2) (Some ''late'') 10
       (snd (approve_withdrawal boss_token (Some 2) 9 db1)) =
     (Error 400 ''Transaction already processed'',
      snd (approve_withdrawal boss_token (Some 2) 9 db1)) \<and>
   approve_withdrawal boss_token (Some 1) 10
       (snd (reject_withdrawal boss_token (Some 1) None 9 db1)) =
     (Error 400 ''Transaction already processed'',
      snd (reject_withdrawal boss_token (Some 1) None 9 db1)) \<and>
   reject_withdrawal boss_token (Some 1) (Some ''late'') 10
       (snd (reject_withdrawal boss_token (Some 1) None 9 db1)) =
     (Error 400 ''Transaction already processed'',
      snd (reject_withdrawal boss_token (Some 1) None 9 db1)) \<and>
   approve_withdrawal boss_token (Some 1) 12
       (snd (reject_withdrawal boss_token (Some 1) None 9 db1)) =
     (Error 400 ''Transaction already processed'',
      snd (reject_withdrawal boss_token (Some 1) None 9 db1))"
proof -
  let ?j = "\<lparr>jwt_id = 2, jwt_email = ''Admin@example.com'', jwt_isAdmin = True\<rparr>"
  let ?a = "snd (approve_withdrawal (Token ?j) (Some 2) 9 db1)"
  let ?r = "snd (reject_withdrawal (Token ?j) (Some 1) None 9 db1)"
  let ?t = "wth80\<lparr>status := Rejected, processedAt := Some 9, processedBy := Some 2,
              reference := Some (Text ''Rejected by admin'')\<rparr>"
  have h1: "findTx 2 (transactions db1) = Some wth20"
    by (simp add: sample_defs)
  have h2: "findTx 1 (transactions ?r) = Some ?t \<and> status ?t \<noteq> Pending \<and> jwt_isAdmin ?j"
    by (simp add: sample_defs admin_defs)
  have h3: "fst (approve_withdrawal (Token ?j) (Some 2) 9 db1) =
              Success ''Withdrawal approved successfully'' \<and> jwt_isAdmin ?j"
    by (simp add: sample_defs admin_defs)
  have h4: "fst (reject_withdrawal (Token ?j) (Some 1) None 9 db1) =
              Success ''Withdrawal rejected'' \<and> jwt_isAdmin ?j"
    by (simp add: sample_defs admin_defs)
  note c1 = withdrawal_status_machine[where i = 2 and d = db1 and t = wth20
      and r = "ApproveWithdrawal (Token ?j) (Some 2) 9", THEN conjunct1, THEN mp, OF h1]
  note c2 = withdrawal_status_machine[where i = 1 and d = ?r and t = ?t and j = ?j
      and now = 12 and reason = None,
      THEN conjunct2, THEN conjunct1, THEN mp, OF h2]
  note c3 = withdrawal_status_machine[where i = 2 and d = db1 and a = "Token ?j" and j = ?j
      and now = 9 and msg = "''Withdrawal approved successfully''" and now' = 10
      and reason' = "Some ''late''",
      THEN conjunct2, THEN conjunct2, THEN conjunct1, THEN mp, OF h3]
  note c4 = withdrawal_status_machine[where i = 1 and d = db1 and a = "Token ?j" and j = ?j
      and now = 9 and reason = None and msg = "''Withdrawal rejected''" and now' = 10
      and reason' = "Some ''late''",
      THEN conjunct2, THEN conjunct2, THEN conjunct2, THEN mp, OF h4]
  show ?thesis
    unfolding boss_token_def
    using c1 c2[THEN conjunct1] c3[THEN conjunct2] c4[THEN conjunct2, THEN conjunct2]
    by (intro conjI) blast+
qed

section \<open>The claim about deposits\<close>

lemma webhook_completed:
  assumes "req_metadata = Some md" and "user_id md = Some i"
    and "findById i (users d) = Some u" and "parseFloat req_amount = Some n"
  shows "webhook (JStr ''completed'') req_amount req_metadata d =
           (Success ''Payment processed'',
            d\<lparr>users := save_user (u\<lparr>balance := balance u + n\<rparr>) (users d)\<rparr>)"
  using assms by (simp add: webhook_def)

text \<open>C6. A callback with status \<open>completed\<close> for an account that exists credits
  the balance of that account, and of no other, by the numeric value of the
  amount; a callback with any other status is acknowledged and leaves the
  store as it was; the same \<open>completed\<close> callback sent again credits the
  amount again.\<close>

theorem webhook_credits:
  "(req_metadata = Some md \<and> user_id md = Some i \<and> findById i (users d) = Some u \<and>
    parseFloat req_amount = Some n \<longrightarrow>
      fst (webhook (JStr ''completed'') req_amount req_metadata d) =
        Success ''Payment processed'' \<and>
      findById i (users (snd (webhook (JStr ''completed'') req_amount req_metadata d))) =
        Some (u\<lparr>balance := balance u + n\<rparr>) \<and>
      (\<forall>k. k \<noteq> i \<longrightarrow>
         findById k (users (snd (webhook (JStr ''completed'') req_amount req_metadata d))) =
           findById k (users d)) \<and>
      fst (webhook (JStr ''completed'') req_amount req_metadata
             (snd (webhook (JStr ''completed'') req_amount req_metadata d))) =
        Success ''Payment processed'' \<and>
      findById i (users (snd (webhook (JStr ''completed'') req_amount req_metadata
             (snd (webhook (JStr ''completed'') req_amount req_metadata d))))) =
        Some (u\<lparr>balance := balance u + n + n\<rparr>)) \<and>
   (req_status \<noteq> JStr ''completed'' \<longrightarrow>
      (\<exists>msg. webhook req_status req_amount req_metadata d = (Success msg, d)))"
proof (intro conjI impI allI)
  assume "req_status \<noteq> JStr ''completed''"
  then show "\<exists>msg. webhook req_status req_amount req_metadata d = (Success msg, d)"
    by (simp add: webhook_def)
next
  assume h: "req_metadata = Some md \<and> user_id md = Some i \<and> findById i (users d) = Some u \<and>
    parseFloat req_amount = Some n"
  let ?u1 = "u\<lparr>balance := balance u + n\<rparr>"
  let ?d1 = "d\<lparr>users := save_user ?u1 (users d)\<rparr>"
  have w1: "webhook (JStr ''completed'') req_amount req_metadata d =
              (Success ''Payment processed'', ?d1)"
    using h by (simp add: webhook_completed)
  have i: "uid u = i"
    using h findById_uid by blast
  have f1: "findById i (users ?d1) = Some ?u1"
    using h findById_save_user[of i "users d" u ?u1] by simp
  have w2: "webhook (JStr ''completed'') req_amount req_metadata ?d1 =
              (Success ''Payment processed'',
               ?d1\<lparr>users := save_user (?u1\<lparr>balance := balance ?u1 + n\<rparr>) (users ?d1)\<rparr>)"
    using h f1 webhook_completed[of req_metadata md i ?d1 ?u1 req_amount n] by blast
  show "fst (webhook (JStr ''completed'') req_amount req_metadata d) =
          Success ''Payment processed''"
    by (simp add: w1)
  show "findById i (users (snd (webhook (JStr ''completed'') req_amount req_metadata d))) =
          Some ?u1"
    using f1 by (simp add: w1)
  show "findById k (users (snd (webhook (JStr ''completed'') req_amount req_metadata d))) =
          findById k (users d)" if "k \<noteq> i" for k
    using that i by (simp add: w1 findById_save_user_other)
  show "fst (webhook (JStr ''completed'') req_amount req_metadata
             (snd (webhook (JStr ''completed'') req_amount req_metadata d))) =
          Success ''Payment processed''"
    by (simp add: w1 w2)
  have "findById i (save_user (?u1\<lparr>balance := balance ?u1 + n\<rparr>) (users ?d1)) =
          Some (?u1\<lparr>balance := balance ?u1 + n\<rparr>)"
    by (rule findById_save_user[OF f1]) simp
  then show "findById i (users (snd (webhook (JStr ''completed'') req_amount req_metadata
             (snd (webhook (JStr ''completed'') req_amount req_metadata d))))) =
          Some (u\<lparr>balance := balance u + n + n\<rparr>)"
    by (simp add: w1 w2)
qed

lemma parseFloat_text_25_50: "parseFloat_text ''25.50'' = Some 25.5"
  by code_simp


theorem webhook_credits_witness:
  "parseFloat (JStr ''25.50'') = Some 25.5 \<and>
   findById 1 (users (snd (webhook (JStr ''completed'') (JStr ''25.50'')
       (Some \<lparr>user_id = Some 1\<rparr>) db0))) = Some (alice\<lparr>balance := 50 + 25.5\<rparr>) \<and>
   findById 1 (users (snd (webhook (JStr ''completed'') (JStr ''25.50'')
       (Some \<lparr>user_id = Some 1\<rparr>)
       (snd (webhook (JStr ''completed'') (JStr ''25.50'')
          (Some \<lparr>user_id = Some 1\<rparr>) db0))))) = Some (alice\<lparr>balance := 50 + 25.5 + 25.5\<rparr>) \<and>
   (\<exists>msg. webhook (JStr ''failed'') (JStr ''25.50'') (Some \<lparr>user_id = Some 1\<rparr>) db0 =
      (Success msg, db0))"
proof -
  have h: "Some \<lparr>user_id = Some 1\<rparr> = Some \<lparr>user_id = Some 1\<rparr> \<and>
      user_id \<lparr>user_id = Some 1\<rparr> = Some 1 \<and> findById 1 (users db0) = Some alice \<and>
      parseFloat (JStr ''25.50'') = Some 25.5"
    by (simp add: parseFloat_text_25_50 db0_def findById_def alice_def)
  have b: "balance alice = 50"
    by (simp add: alice_def)
  have f: "JStr ''failed'' \<noteq> JStr ''completed''"
    by simp
  note c = webhook_credits[where req_metadata = "Some \<lparr>user_id = Some 1\<rparr>"
      and md = "\<lparr>user_id = Some 1\<rparr>" and i = 1 and d = db0 and u = alice
      and req_amount = "JStr ''25.50''" and n = "25.5" and req_status = "JStr ''failed''"]
  from c[THEN conjunct1, THEN mp, OF h] c[THEN conjunct2, THEN mp, OF f] b
  show ?thesis
    by (simp add: parseFloat_text_25_50)
qed

section \<open>The claim about signing up\<close>

lemma includes_str_sublist: "includes_str s t \<longleftrightarrow> sublist t s"
  by (induction s) (simp_all add: sublist_Cons_right)

lemma fold_max_ge: "a \<le> fold max xs (a::nat)"
  by (induction xs arbitrary: a) (auto intro: le_trans[OF max.cobounded2])

lemma fold_max_mem: "x \<in> set xs \<Longrightarrow> x \<le> fold max xs (a::nat)"
proof (induction xs arbitrary: a)
  case Nil
  then show ?case by simp
next
  case (Cons y ys)
  show ?case
  proof (cases "x = y")
    case True
    have "y \<le> max y a" by simp
    also have "\<dots> \<le> fold max ys (max y a)" by (rule fold_max_ge)
    finally show ?thesis using True by simp
  next
    case False
    with Cons show ?thesis by simp
  qed
qed

lemma fresh_notin: "fresh ids \<notin> set ids"
  using fold_max_mem[of "fresh ids" ids 0] by (auto simp: fresh_def)

text \<open>C7. For every valid signup input (email, password and phone present, the
  email not taken) the account that is created has balance 0, and its admin
  flag is true exactly when the lowercased email contains \<open>admin\<close>.\<close>

theorem signup_new_account:
  assumes "e \<noteq> []" and "p \<noteq> []" and "ph \<noteq> []"
    and "findOne_email e (users d) = None"
  shows "\<exists>u. signup h (Some e) (Some p) (Some ph) now d =
           (Success (SignedUp (uid u) e ph 0 (isAdmin u)
              \<lparr>jwt_id = uid u, jwt_email = e, jwt_isAdmin = isAdmin u\<rparr>),
            d\<lparr>users := users d @ [u]\<rparr>) \<and>
           email u = e \<and> phone u = ph \<and> password u = Some (h p) \<and>
           uid u \<notin> set (map uid (users d)) \<and>
           balance u = 0 \<and>
           isAdmin u = (\<exists>ps ss. toLowerCase e = ps @ ''admin'' @ ss)"
proof -
  let ?u = "\<lparr>uid = fresh (map uid (users d)), email = e, password = Some (h p), phone = ph,
             balance = 0, isAdmin = includes_str (toLowerCase e) ''admin'',
             createdAt = now\<rparr>"
  have "signup h (Some e) (Some p) (Some ph) now d =
           (Success (SignedUp (uid ?u) e ph 0 (isAdmin ?u)
              \<lparr>jwt_id = uid ?u, jwt_email = e, jwt_isAdmin = isAdmin ?u\<rparr>),
            d\<lparr>users := users d @ [?u]\<rparr>)"
    using assms by (simp add: signup_def Let_def)
  moreover have "isAdmin ?u = (\<exists>ps ss. toLowerCase e = ps @ ''admin'' @ ss)"
    by (simp add: includes_str_sublist sublist_def)
  moreover have "uid ?u \<notin> set (map uid (users d))"
    using fresh_notin[of "map uid (users d)"] by simp
  moreover have "email ?u = e" "phone ?u = ph" "password ?u = Some (h p)" "balance ?u = 0"
    by simp_all
  ultimately show ?thesis
    by (intro exI[of _ ?u] conjI)
qed

theorem signup_new_account_witness:
  "signup (\<lambda>p. ''bcrypt'' @ p) (Some ''SuperADMIN@x.io'') (Some ''pw'') (Some ''+1'') 12 db0 =
     (Success (SignedUp 3 ''SuperADMIN@x.io'' ''+1'' 0 True
        \<lparr>jwt_id = 3, jwt_email = ''SuperADMIN@x.io'', jwt_isAdmin = True\<rparr>),
      db0\<lparr>users := users db0 @
        [\<lparr>uid = 3, email = ''SuperADMIN@x.io'', password = Some ''bcryptpw'', phone = ''+1'',
          balance = 0, isAdmin = True, createdAt = 12\<rparr>]\<rparr>) \<and>
   (\<exists>ps ss. toLowerCase ''SuperADMIN@x.io'' = ps @ ''admin'' @ ss)"
proof -
  let ?h = "\<lambda>p. ''bcrypt'' @ p"
  have l: "toLowerCase ''SuperADMIN@x.io'' = ''superadmin@x.io''"
    by code_simp
  have v: "''SuperADMIN@x.io'' \<noteq> []" "''pw'' \<noteq> []" "''+1'' \<noteq> []"
    "findOne_email ''SuperADMIN@x.io'' (users db0) = None"
    by (simp_all add: findOne_email_def db0_def alice_def boss_def)
  have s: "signup ?h (Some ''SuperADMIN@x.io'') (Some ''pw'') (Some ''+1'') 12 db0 =
     (Success (SignedUp 3 ''SuperADMIN@x.io'' ''+1'' 0 True
        \<lparr>jwt_id = 3, jwt_email = ''SuperADMIN@x.io'', jwt_isAdmin = True\<rparr>),
      db0\<lparr>users := users db0 @
        [\<lparr>uid = 3, email = ''SuperADMIN@x.io'', password = Some ''bcryptpw'', phone = ''+1'',
          balance = 0, isAdmin = True, createdAt = 12\<rparr>]\<rparr>)"
    by (simp add: signup_def Let_def l findOne_email_def db0_def alice_def boss_def fresh_def)
  from signup_new_account[OF v, of ?h 12]
  have a: "\<exists>ps ss. toLowerCase ''SuperADMIN@x.io'' = ps @ ''admin'' @ ss"
  proof (elim exE conjE)
    fix u
    assume 1: "signup ?h (Some ''SuperADMIN@x.io'') (Some ''pw'') (Some ''+1'') 12 db0 =
           (Success (SignedUp (uid u) ''SuperADMIN@x.io'' ''+1'' 0 (isAdmin u)
              \<lparr>jwt_id = uid u, jwt_email = ''SuperADMIN@x.io'', jwt_isAdmin = isAdmin u\<rparr>),
            db0\<lparr>users := users db0 @ [u]\<rparr>)"
      and 2: "isAdmin u = (\<exists>ps ss. toLowerCase ''SuperADMIN@x.io'' = ps @ ''admin'' @ ss)"
    from 1 have "isAdmin u"
      unfolding s by simp
    with 2 show ?thesis
      by (simp only:)
  qed
  from s a show ?thesis
    by (rule conjI)
qed

section \<open>The claim about the game settings\<close>

lemmas settings_defs = update_game_settings_def update_game_settings_handler_def
  authenticateToken_def requireAdmin_def GameSettings_findOne_def apply_defaults_def
  or_default_def new_GameSettings_def default_multipliers_def current_settings_def

text \<open>C9, as the code has it. An update of the game settings changes
  \<open>houseFee\<close>, \<open>maxBet\<close> and \<open>minBet\<close> exactly when the body supplies them, and
  stamps \<open>updatedAt\<close> and \<open>updatedBy\<close>. The multiplier table is one field: it
  keeps its value when the body has no \<open>payoutMultipliers\<close>, and is replaced as
  a whole by the body's object otherwise.\<close>

theorem update_game_settings_partial:
  assumes "jwt_isAdmin j"
  shows "\<exists>s'. update_game_settings (Token j) req_houseFee req_maxBet req_minBet
                 req_payoutMultipliers now d = (Success s', d\<lparr>settings := Some s'\<rparr>) \<and>
           houseFee s' = (case req_houseFee of None \<Rightarrow> houseFee (current_settings now d)
                          | Some v \<Rightarrow> v) \<and>
           maxBet s' = (case req_maxBet of None \<Rightarrow> maxBet (current_settings now d)
                        | Some v \<Rightarrow> v) \<and>
           minBet s' = (case req_minBet of None \<Rightarrow> minBet (current_settings now d)
                        | Some v \<Rightarrow> v) \<and>
           payoutMultipliers s' =
             (case req_payoutMultipliers of
                None \<Rightarrow> payoutMultipliers (current_settings now d)
              | Some pm \<Rightarrow> pm) \<and>
           updatedAt s' = now \<and> updatedBy s' = Some (jwt_id j)"
  using assms
  by (simp add: update_game_settings_def update_game_settings_handler_def
        authenticateToken_def requireAdmin_def current_settings_def Let_def
      split: option.splits)

theorem update_game_settings_partial_witness:
  "update_game_settings boss_token None (Some 5) None None 11 db9 =
     (Success (settings9\<lparr>maxBet := 5, updatedAt := 11, updatedBy := Some 2\<rparr>),
      db9\<lparr>settings := Some (settings9\<lparr>maxBet := 5, updatedAt := 11, updatedBy := Some 2\<rparr>)\<rparr>) \<and>
   payoutMultipliers (settings9\<lparr>maxBet := 5, updatedAt := 11, updatedBy := Some 2\<rparr>) =
     payoutMultipliers (current_settings 11 db9)"
proof -
  let ?j = "\<lparr>jwt_id = 2, jwt_email = ''Admin@example.com'', jwt_isAdmin = True\<rparr>"
  let ?s = "settings9\<lparr>maxBet := 5, updatedAt := 11, updatedBy := Some 2\<rparr>"
  have adm: "jwt_isAdmin ?j"
    by simp
  have e: "update_game_settings (Token ?j) None (Some 5) None None 11 db9 =
     (Success ?s, db9\<lparr>settings := Some ?s\<rparr>)"
    by (simp add: settings_defs db9_def settings9_def Let_def)
  from update_game_settings_partial[OF adm, of None "Some 5" None None 11 db9]
  have "payoutMultipliers ?s = payoutMultipliers (current_settings 11 db9)"
  proof (elim exE conjE)
    fix s'
    assume 1: "update_game_settings (Token ?j) None (Some 5) None None 11 db9 =
        (Success s', db9\<lparr>settings := Some s'\<rparr>)"
      and 2: "payoutMultipliers s' =
        (case None of None \<Rightarrow> payoutMultipliers (current_settings 11 db9) | Some pm \<Rightarrow> pm)"
    from 1 have "s' = ?s"
      unfolding e by simp
    with 2 show ?thesis
      by simp
  qed
  with e show ?thesis
    unfolding boss_token_def by (rule conjI)
qed

text \<open>The claim as it is worded fails: the body
  \<open>{ payoutMultipliers: { oneMatch: 5 } }\<close> does not supply \<open>twoMatches\<close> and
  \<open>threeMatches\<close>, which were 20 and 200; afterwards the stored document has
  neither, and the next read gives the schema's defaults 10 and 100.\<close>

theorem update_game_settings_counterexample:
  "GameSettings_findOne db9 =
     Some \<lparr>houseFee = 10, maxBet = 1000, minBet = 1,
           payoutMultipliers =
             \<lparr>threeMatches = Some 200, twoMatches = Some 20, oneMatch = Some 3\<rparr>,
           updatedAt = 7, updatedBy = Some 2\<rparr> \<and>
   fst (update_game_settings boss_token None None None
          (Some \<lparr>threeMatches = None, twoMatches = None, oneMatch = Some 5\<rparr>) 11 db9) =
     Success \<lparr>houseFee = 10, maxBet = 1000, minBet = 1,
              payoutMultipliers =
                \<lparr>threeMatches = None, twoMatches = None, oneMatch = Some 5\<rparr>,
              updatedAt = 11, updatedBy = Some 2\<rparr> \<and>
   GameSettings_findOne
       (snd (update_game_settings boss_token None None None
          (Some \<lparr>threeMatches = None, twoMatches = None, oneMatch = Some 5\<rparr>) 11 db9)) =
     Some \<lparr>houseFee = 10, maxBet = 1000, minBet = 1,
           payoutMultipliers =
             \<lparr>threeMatches = Some 100, twoMatches = Some 10, oneMatch = Some 5\<rparr>,
           updatedAt = 11, updatedBy = Some 2\<rparr> \<and>
   twoMatches (payoutMultipliers (the (GameSettings_findOne
       (snd (update_game_settings boss_token None None None
          (Some \<lparr>threeMatches = None, twoMatches = None, oneMatch = Some 5\<rparr>) 11 db9))))) \<noteq>
     twoMatches (payoutMultipliers (the (GameSettings_findOne db9)))"
  by (simp add: settings_defs db9_def settings9_def boss_token_def Let_def)

section \<open>The claim about the list of users\<close>

text \<open>C10. The list of users that an administrator gets holds the accounts whose
  admin flag is false, each without its password, and no other account.\<close>

theorem list_users_non_admin:
  assumes "list_users a d = (Success us, d')"
  shows "d' = d \<and>
         set us = select_no_password ` {u \<in> set (users d). \<not> isAdmin u} \<and>
         length us = length (filter (\<lambda>u. \<not> isAdmin u) (users d)) \<and>
         list_all (\<lambda>u. \<not> isAdmin u \<and> password u = None) us"
proof -
  obtain j where a: "a = Token j" and adm: "jwt_isAdmin j"
    using assms
    by (cases a) (auto simp: list_users_def authenticateToken_def requireAdmin_def
        split: if_splits)
  have us: "us = sort_key (\<lambda>u. - int (createdAt u))
              (map select_no_password (filter (\<lambda>u. isAdmin u = False) (users d)))"
    and d: "d' = d"
    using assms a adm
    by (auto simp: list_users_def authenticateToken_def requireAdmin_def list_users_handler_def)
  have "set us = select_no_password ` {u \<in> set (users d). \<not> isAdmin u}"
    unfolding us by auto
  moreover have "length us = length (filter (\<lambda>u. \<not> isAdmin u) (users d))"
    unfolding us by simp
  moreover have "list_all (\<lambda>u. \<not> isAdmin u \<and> password u = None) us"
    unfolding us by (auto simp: list_all_iff select_no_password_def)
  ultimately show ?thesis
    using d by simp
qed

theorem list_users_non_admin_witness:
  "list_users boss_token db1 = (Success [alice\<lparr>password := None\<rparr>], db1) \<and>
   set [alice\<lparr>password := None\<rparr>] =
     select_no_password ` {u \<in> set (users db1). \<not> isAdmin u} \<and>
   list_all (\<lambda>u. \<not> isAdmin u \<and> password u = None) [alice\<lparr>password := None\<rparr>]"
proof -
  have e: "list_users boss_token db1 = (Success [alice\<lparr>password := None\<rparr>], db1)"
    by (simp add: list_users_def authenticateToken_def requireAdmin_def list_users_handler_def
        select_no_password_def boss_token_def db1_def alice_def boss_def)
  from list_users_non_admin[OF e] e show ?thesis
    by (intro conjI) blast+
qed

end
